theory Spec2Isabelle
  imports Complex_Main "HOL-Library.Sublist"
begin

section \<open>Python values, errors and strings\<close>

text \<open>
  The exceptions that \<^verbatim>\<open>OptimizationProblem.__init__\<close> and \<^verbatim>\<open>solve\<close> can raise
  through the operations they perform themselves. A raising computation is a value
  \<open>Inl e\<close>; a computation that finishes is \<open>Inr x\<close>.
\<close>

datatype py_error =
  IndexError | KeyError | TypeError | AttributeError | ZeroDivisionError | ValueError

definition bindR :: "py_error + 'a \<Rightarrow> ('a \<Rightarrow> py_error + 'b) \<Rightarrow> py_error + 'b" where
  "bindR m f = (case m of Inl e \<Rightarrow> Inl e | Inr x \<Rightarrow> f x)"

text \<open>A \<^verbatim>\<open>for\<close> loop that appends one result per element and stops at the first raise.\<close>

fun mapM :: "('a \<Rightarrow> py_error + 'b) \<Rightarrow> 'a list \<Rightarrow> py_error + 'b list" where
  "mapM f [] = Inr []"
| "mapM f (x # xs) =
     (case f x of
        Inl e \<Rightarrow> Inl e
      | Inr y \<Rightarrow> (case mapM f xs of Inl e \<Rightarrow> Inl e | Inr ys \<Rightarrow> Inr (y # ys)))"

text \<open>A \<^verbatim>\<open>for\<close> loop that updates an accumulator and stops at the first raise.\<close>

fun foldM :: "('a \<Rightarrow> 'b \<Rightarrow> py_error + 'b) \<Rightarrow> 'a list \<Rightarrow> 'b \<Rightarrow> py_error + 'b" where
  "foldM f [] acc = Inr acc"
| "foldM f (x # xs) acc =
     (case f x acc of Inl e \<Rightarrow> Inl e | Inr acc' \<Rightarrow> foldM f xs acc')"

text \<open>Python's \<^verbatim>\<open>sub in s\<close> on strings: \<open>sub\<close> occurs in \<open>s\<close> as a contiguous piece.\<close>

fun str_in :: "string \<Rightarrow> string \<Rightarrow> bool" where
  "str_in sub [] = (sub = [])"
| "str_in sub (c # cs) = (prefix sub (c # cs) \<or> str_in sub cs)"

section \<open>The Pyomo model: variables, expressions, constraints\<close>

text \<open>
  Time points are whole seconds since the epoch (\<open>int\<close>); a difference of two time
  points is a number of seconds. One decision variable exists per index of each of the
  families declared in \<^verbatim>\<open>__init__\<close>.
\<close>

datatype var =
  variable_state_vector int string
| variable_control_vector int string
| variable_output_vector int string
| variable_storage_size
| variable_storage_peak_power
| variable_storage_exists
| variable_load_reduction

datatype pyo_domain = PyoReals | PyoNonNegativeReals | PyoBinary

text \<open>
  A Python number or a Pyomo expression. \<open>Lit x\<close> is a plain Python \<^verbatim>\<open>float\<close>;
  every other constructor is a symbolic expression object.
\<close>

datatype expr =
  Lit real
| V var
| Add expr expr
| Sub expr expr
| Mul expr expr
| Div expr expr

datatype constraint = Eq expr expr | Ge expr expr | Le expr expr

text \<open>
  Python arithmetic: two floats give a float, anything else builds an expression node.
\<close>

definition py_add :: "expr \<Rightarrow> expr \<Rightarrow> expr" where
  "py_add x y = (case (x, y) of (Lit a, Lit b) \<Rightarrow> Lit (a + b) | _ \<Rightarrow> Add x y)"

definition py_sub :: "expr \<Rightarrow> expr \<Rightarrow> expr" where
  "py_sub x y = (case (x, y) of (Lit a, Lit b) \<Rightarrow> Lit (a - b) | _ \<Rightarrow> Sub x y)"

definition py_mul :: "expr \<Rightarrow> expr \<Rightarrow> expr" where
  "py_mul x y = (case (x, y) of (Lit a, Lit b) \<Rightarrow> Lit (a * b) | _ \<Rightarrow> Mul x y)"

definition py_div :: "expr \<Rightarrow> expr \<Rightarrow> expr" where
  "py_div x y = (case (x, y) of (Lit a, Lit b) \<Rightarrow> Lit (a / b) | _ \<Rightarrow> Div x y)"

text \<open>The builtin \<^verbatim>\<open>sum\<close>: starts from zero and adds the items from left to right.\<close>

definition py_sum :: "expr list \<Rightarrow> expr" where
  "py_sum es = foldl py_add (Lit 0) es"

text \<open>\<^verbatim>\<open>type(x) is float\<close>\<close>

fun is_float :: "expr \<Rightarrow> bool" where
  "is_float (Lit x) = True"
| "is_float e = False"

fun float_of :: "expr \<Rightarrow> real" where
  "float_of (Lit x) = x"
| "float_of e = 0"

text \<open>The value of an expression under an assignment of the variables.\<close>

fun eval :: "(var \<Rightarrow> real) \<Rightarrow> expr \<Rightarrow> real" where
  "eval a (Lit x) = x"
| "eval a (V v) = a v"
| "eval a (Add x y) = eval a x + eval a y"
| "eval a (Sub x y) = eval a x - eval a y"
| "eval a (Mul x y) = eval a x * eval a y"
| "eval a (Div x y) = eval a x / eval a y"

fun holds :: "(var \<Rightarrow> real) \<Rightarrow> constraint \<Rightarrow> bool" where
  "holds a (Eq l r) = (eval a l = eval a r)"
| "holds a (Ge l r) = (eval a l \<ge> eval a r)"
| "holds a (Le l r) = (eval a l \<le> eval a r)"

fun in_domain :: "pyo_domain \<Rightarrow> real \<Rightarrow> bool" where
  "in_domain PyoReals x = True"
| "in_domain PyoNonNegativeReals x = (0 \<le> x)"
| "in_domain PyoBinary x = (x = 0 \<or> x = 1)"

section \<open>The building model and the constructor's arguments\<close>

text \<open>
  The building model is built elsewhere and only read here. Its matrices and time series
  are tables indexed by the building's own name sets and time points, read inside those
  index sets only; they are functions of the two keys. The electricity price series is
  the one table that is copied and written to, so the building holds a reference to it:
  an address in the store of price tables. A price table maps a time point to the value
  of its \<^verbatim>\<open>price\<close> column; a time point outside its index is absent.
\<close>

type_synonym price_table = "int \<rightharpoonup> real"
type_synonym store = "price_table list"

record building =
  timesteps :: "int list"
  states :: "string list"
  controls :: "string list"
  outputs :: "string list"
  disturbances :: "string list"
  state_matrix :: "string \<Rightarrow> string \<Rightarrow> real"
  control_matrix :: "string \<Rightarrow> string \<Rightarrow> real"
  disturbance_matrix :: "string \<Rightarrow> string \<Rightarrow> real"
  state_output_matrix :: "string \<Rightarrow> string \<Rightarrow> real"
  control_output_matrix :: "string \<Rightarrow> string \<Rightarrow> real"
  disturbance_output_matrix :: "string \<Rightarrow> string \<Rightarrow> real"
  disturbance_timeseries :: "int \<Rightarrow> string \<Rightarrow> real"
  state_vector_initial :: "string \<Rightarrow> real"
  output_constraint_timeseries_minimum :: "int \<Rightarrow> string \<Rightarrow> real"
  output_constraint_timeseries_maximum :: "int \<Rightarrow> string \<Rightarrow> real"
  electricity_price_timeseries :: nat
  building_storage_type :: string
  storage_battery_depth_of_discharge :: real
  storage_lifetime :: real
  storage_planning_energy_installation_cost :: real
  storage_planning_power_installation_cost :: real
  storage_planning_fixed_installation_cost :: real
  water_density :: real

text \<open>The keyword arguments of \<^verbatim>\<open>__init__\<close>; \<open>None\<close> is Python's \<^verbatim>\<open>None\<close>.\<close>

record init_args =
  problem_type :: string
  output_vector_reference :: "(int \<Rightarrow> string \<Rightarrow> real) option"
  load_reduction_start_time :: "int option"
  load_reduction_end_time :: "int option"
  price_sensitivity_factor :: "real option"
  price_sensitivity_timestep :: "int option"

text \<open>What the solver hands back: a termination condition and the variables' values.\<close>

datatype termination_condition = optimal | infeasible | unbounded | solver_error

record solver_result =
  termination_status :: termination_condition
  var_values :: "var \<Rightarrow> real option"

text \<open>The object \<^verbatim>\<open>self\<close> after \<^verbatim>\<open>__init__\<close>.\<close>

record optimization_problem =
  self_building :: building
  self_args :: init_args
  self_electricity_price_timeseries :: nat
  variables :: "(var \<times> pyo_domain) list"
  constraints :: "constraint list"
  operation_cost :: expr
  investment_cost :: expr
  operation_cost_factor :: real
  objective :: expr
  self_result :: "solver_result option"

section \<open>\<^verbatim>\<open>OptimizationProblem.__init__\<close>\<close>

subsection \<open>Variables\<close>

definition declare_vars ::
  "(int \<Rightarrow> string \<Rightarrow> var) \<Rightarrow> int list \<Rightarrow> string list \<Rightarrow> pyo_domain \<Rightarrow> (var \<times> pyo_domain) list" where
  "declare_vars family ts names d = concat (map (\<lambda>t. map (\<lambda>n. (family t n, d)) names) ts)"

definition define_variables :: "building \<Rightarrow> string \<Rightarrow> (var \<times> pyo_domain) list" where
  "define_variables b pt =
     declare_vars variable_state_vector (timesteps b) (states b) PyoReals
     @ declare_vars variable_control_vector (timesteps b) (controls b) PyoNonNegativeReals
     @ declare_vars variable_output_vector (timesteps b) (outputs b) PyoReals
     @ (if pt = ''storage_planning'' then
          [(variable_storage_size, PyoNonNegativeReals),
           (variable_storage_peak_power, PyoNonNegativeReals),
           (variable_storage_exists, PyoBinary)]
        else [])
     @ (if pt = ''load_reduction'' then [(variable_load_reduction, PyoNonNegativeReals)] else [])"

text \<open>
  \<^verbatim>\<open>self.problem.variable_storage_size[0]\<close>: the decision variable under
  \<^verbatim>\<open>storage_planning\<close>, the float \<^verbatim>\<open>0.0\<close> of the list \<^verbatim>\<open>[0.0]\<close> under
  \<^verbatim>\<open>storage_planning_baseline\<close>. No other variant reads it.
\<close>

definition storage_size_0 :: "string \<Rightarrow> expr" where
  "storage_size_0 pt = (if pt = ''storage_planning'' then V variable_storage_size else Lit 0)"

subsection \<open>Initial state and state equation\<close>

definition initial_state_constraints :: "building \<Rightarrow> py_error + constraint list" where
  "initial_state_constraints b =
     mapM (\<lambda>state.
        (case timesteps b of
           [] \<Rightarrow> Inl IndexError
         | t0 # _ \<Rightarrow>
             Inr (Eq (V (variable_state_vector t0 state)) (Lit (state_vector_initial b state)))))
       (states b)"

definition timestep_delta_of :: "building \<Rightarrow> py_error + int" where
  "timestep_delta_of b =
     (case timesteps b of t0 # t1 # _ \<Rightarrow> Inr (t1 - t0) | _ \<Rightarrow> Inl IndexError)"

definition state_equation_rhs :: "building \<Rightarrow> string \<Rightarrow> int \<Rightarrow> expr" where
  "state_equation_rhs b state timestep =
     py_add
       (py_add
          (py_sum (map (\<lambda>state_other.
               py_mul (Lit (state_matrix b state state_other))
                      (V (variable_state_vector timestep state_other))) (states b)))
          (py_sum (map (\<lambda>control.
               py_mul (Lit (control_matrix b state control))
                      (V (variable_control_vector timestep control))) (controls b))))
       (py_sum (map (\<lambda>disturbance.
            py_mul (Lit (disturbance_matrix b state disturbance))
                   (Lit (disturbance_timeseries b timestep disturbance))) (disturbances b)))"

text \<open>
  Indexing the state variable at \<^verbatim>\<open>timestep + timestep_delta\<close> raises \<^verbatim>\<open>KeyError\<close>
  when that time point is not one of the building's timesteps.
\<close>

definition state_equation :: "building \<Rightarrow> int \<Rightarrow> string \<Rightarrow> int \<Rightarrow> py_error + constraint" where
  "state_equation b timestep_delta state timestep =
     (if timestep + timestep_delta \<in> set (timesteps b) then
        Inr (Eq (V (variable_state_vector (timestep + timestep_delta) state))
                (state_equation_rhs b state timestep))
      else Inl KeyError)"

definition state_equation_constraints :: "building \<Rightarrow> int \<Rightarrow> py_error + constraint list" where
  "state_equation_constraints b timestep_delta =
     bindR (mapM (\<lambda>state. mapM (state_equation b timestep_delta state) (butlast (timesteps b)))
              (states b))
       (\<lambda>rows. Inr (concat rows))"

subsection \<open>Output equation and output bounds\<close>

definition output_equation :: "building \<Rightarrow> string \<Rightarrow> int \<Rightarrow> constraint" where
  "output_equation b output timestep =
     Eq (V (variable_output_vector timestep output))
        (py_add
           (py_add
              (py_sum (map (\<lambda>state.
                   py_mul (Lit (state_output_matrix b output state))
                          (V (variable_state_vector timestep state))) (states b)))
              (py_sum (map (\<lambda>control.
                   py_mul (Lit (control_output_matrix b output control))
                          (V (variable_control_vector timestep control))) (controls b))))
           (py_sum (map (\<lambda>disturbance.
                py_mul (Lit (disturbance_output_matrix b output disturbance))
                       (Lit (disturbance_timeseries b timestep disturbance))) (disturbances b))))"

definition output_equation_constraints :: "building \<Rightarrow> constraint list" where
  "output_equation_constraints b =
     concat (map (\<lambda>output. map (output_equation b output) (timesteps b)) (outputs b))"

definition minimum_bound :: "building \<Rightarrow> string \<Rightarrow> string \<Rightarrow> int \<Rightarrow> constraint list" where
  "minimum_bound b pt output timestep =
     (if str_in ''temperature'' output \<and> pt = ''maximum_load'' then
        (if timestep = hd (timesteps b) then []
         else [Eq (V (variable_output_vector timestep output))
                  (Lit (output_constraint_timeseries_minimum b timestep output))])
      else [Ge (V (variable_output_vector timestep output))
               (Lit (output_constraint_timeseries_minimum b timestep output))])"

definition maximum_bound :: "building \<Rightarrow> string \<Rightarrow> string \<Rightarrow> int \<Rightarrow> constraint list" where
  "maximum_bound b pt output timestep =
     (if (pt = ''storage_planning'' \<or> pt = ''storage_planning_baseline'')
         \<and> str_in ''state_of_charge'' output then
        (if str_in ''sensible'' (building_storage_type b) then
           [Le (V (variable_output_vector timestep output))
               (py_mul (storage_size_0 pt) (Lit (water_density b)))]
         else if str_in ''battery'' (building_storage_type b) then
           [Le (V (variable_output_vector timestep output))
               (py_mul (storage_size_0 pt) (Lit (storage_battery_depth_of_discharge b)))]
         else [])
      else [Le (V (variable_output_vector timestep output))
               (Lit (output_constraint_timeseries_maximum b timestep output))])"

definition output_bound_constraints :: "building \<Rightarrow> string \<Rightarrow> constraint list" where
  "output_bound_constraints b pt =
     concat (map (\<lambda>output.
        concat (map (\<lambda>timestep.
           minimum_bound b pt output timestep @ maximum_bound b pt output timestep)
          (timesteps b)))
       (outputs b))"

subsection \<open>Variant constraints\<close>

text \<open>An output that counts as electric demand.\<close>

definition is_electric_demand :: "string \<Rightarrow> bool" where
  "is_electric_demand output =
     (str_in ''electric_power'' output \<and> \<not> str_in ''storage_to_zone'' output)"

definition LARGE_CONSTANT :: real where
  "LARGE_CONSTANT = 10 ^ 100"

definition storage_planning_constraints :: "building \<Rightarrow> constraint list" where
  "storage_planning_constraints b =
     concat (map (\<lambda>timestep.
        [Le (py_sum (map (\<lambda>output.
                if str_in ''storage_charge'' output \<and> str_in ''electric_power'' output
                then V (variable_output_vector timestep output) else Lit 0) (outputs b)))
            (V variable_storage_peak_power),
         Le (V variable_storage_size)
            (py_mul (V variable_storage_exists) (Lit LARGE_CONSTANT))])
       (timesteps b))"

text \<open>
  Comparing a time point with \<^verbatim>\<open>None\<close> raises \<^verbatim>\<open>TypeError\<close>; \<^verbatim>\<open>and\<close> evaluates
  its second operand only when the first is true; \<^verbatim>\<open>None.loc\<close> raises
  \<^verbatim>\<open>AttributeError\<close>, and the conditional expression reads the reference only for an
  electric-demand output.
\<close>

definition reference_term ::
  "(int \<Rightarrow> string \<Rightarrow> real) option \<Rightarrow> int \<Rightarrow> string \<Rightarrow> py_error + expr" where
  "reference_term reference timestep output =
     (if is_electric_demand output then
        (case reference of
           None \<Rightarrow> Inl AttributeError
         | Some r \<Rightarrow> Inr (Lit (r timestep output)))
      else Inr (Lit 0))"

definition load_reduction_equation :: "building \<Rightarrow> init_args \<Rightarrow> int \<Rightarrow> py_error + constraint" where
  "load_reduction_equation b args timestep =
     bindR (mapM (reference_term (output_vector_reference args) timestep) (outputs b))
       (\<lambda>reference_terms.
          Inr (Eq (py_sum (map (\<lambda>output.
                      if is_electric_demand output
                      then V (variable_output_vector timestep output) else Lit 0) (outputs b)))
                  (py_mul (py_sub (Lit 1) (py_div (V variable_load_reduction) (Lit 100)))
                          (py_sum reference_terms))))"

definition load_reduction_step :: "building \<Rightarrow> init_args \<Rightarrow> int \<Rightarrow> py_error + constraint list" where
  "load_reduction_step b args timestep =
     (case load_reduction_start_time args of
        None \<Rightarrow> Inl TypeError
      | Some start_time \<Rightarrow>
          if timestep \<ge> start_time then
            (case load_reduction_end_time args of
               None \<Rightarrow> Inl TypeError
             | Some end_time \<Rightarrow>
                 if timestep < end_time then
                   bindR (load_reduction_equation b args timestep) (\<lambda>c. Inr [c])
                 else Inr [])
          else Inr [])"

definition load_reduction_constraints :: "building \<Rightarrow> init_args \<Rightarrow> py_error + constraint list" where
  "load_reduction_constraints b args =
     bindR (mapM (load_reduction_step b args) (timesteps b)) (\<lambda>rows. Inr (concat rows))"

definition auxiliary_constraints :: "building \<Rightarrow> init_args \<Rightarrow> py_error + constraint list" where
  "auxiliary_constraints b args =
     (if problem_type args = ''storage_planning'' then Inr (storage_planning_constraints b)
      else if problem_type args = ''load_reduction'' then load_reduction_constraints b args
      else Inr [])"

text \<open>The constraint list in the order the constructor appends to it.\<close>

definition define_constraints :: "building \<Rightarrow> init_args \<Rightarrow> py_error + (int \<times> constraint list)" where
  "define_constraints b args =
     bindR (initial_state_constraints b) (\<lambda>initial.
     bindR (timestep_delta_of b) (\<lambda>timestep_delta.
     bindR (state_equation_constraints b timestep_delta) (\<lambda>dynamics.
     bindR (auxiliary_constraints b args) (\<lambda>auxiliary.
       Inr (timestep_delta,
            initial @ dynamics @ output_equation_constraints b
            @ output_bound_constraints b (problem_type args) @ auxiliary)))))"

subsection \<open>Objective\<close>

text \<open>\<^verbatim>\<open>pd.to_timedelta('1y')\<close> in seconds: 365.2425 days.\<close>

definition ONE_YEAR :: real where
  "ONE_YEAR = 31556952"

definition define_operation_cost_factor :: "building \<Rightarrow> string \<Rightarrow> int \<Rightarrow> py_error + real" where
  "define_operation_cost_factor b pt timestep_delta =
     (if pt = ''storage_planning'' \<or> pt = ''storage_planning_baseline'' then
        (if timestep_delta = 0 then Inl ZeroDivisionError
         else Inr ((ONE_YEAR / real_of_int timestep_delta)
                   / real (length (timesteps b))
                   * storage_lifetime b
                   * 14))
      else if pt = ''load_reduction'' then Inr (1 / 10 ^ 6)
      else Inr 1)"

text \<open>
  \<^verbatim>\<open>self.electricity_price_timeseries.at[timestep, 'price'] *= factor\<close>: read the cell
  (\<^verbatim>\<open>KeyError\<close> when the key is \<^verbatim>\<open>None\<close> or absent), multiply (\<^verbatim>\<open>TypeError\<close> when
  the factor is \<^verbatim>\<open>None\<close>), write the cell.
\<close>

definition modify_price :: "init_args \<Rightarrow> price_table \<Rightarrow> py_error + price_table" where
  "modify_price args prices =
     (if problem_type args = ''price_sensitivity'' then
        (case price_sensitivity_timestep args of
           None \<Rightarrow> Inl KeyError
         | Some k \<Rightarrow>
             (case prices k of
                None \<Rightarrow> Inl KeyError
              | Some price \<Rightarrow>
                  (case price_sensitivity_factor args of
                     None \<Rightarrow> Inl TypeError
                   | Some factor \<Rightarrow> Inr (prices(k \<mapsto> price * factor)))))
      else Inr prices)"

text \<open>
  \<^verbatim>\<open>timestep_delta.seconds\<close> is the seconds field of the time difference, which lies
  between 0 and 86399: whole days are held in another field.
\<close>

definition timedelta_seconds :: "int \<Rightarrow> int" where
  "timedelta_seconds timestep_delta = timestep_delta mod 86400"

definition operation_cost_step ::
  "string \<Rightarrow> price_table \<Rightarrow> real \<Rightarrow> int \<Rightarrow> int \<times> string \<Rightarrow> expr \<Rightarrow> py_error + expr" where
  "operation_cost_step pt prices factor timestep_delta to cost =
     (case to of (timestep, output) \<Rightarrow>
        if pt = ''minimum_load'' \<or> pt = ''maximum_load'' then
          (if output = ''grid_electric_power''
           then Inr (py_add cost (V (variable_output_vector timestep output)))
           else Inr cost)
        else
          (if is_electric_demand output then
             (case prices timestep of
                None \<Rightarrow> Inl KeyError
              | Some price \<Rightarrow>
                  Inr (py_add cost
                    (py_mul
                       (py_mul
                          (py_div
                             (py_div
                                (py_mul (V (variable_output_vector timestep output))
                                        (Lit (real_of_int (timedelta_seconds timestep_delta))))
                                (Lit 3600))
                             (Lit 1000))
                          (Lit price))
                       (Lit factor))))
           else Inr cost))"

definition define_operation_cost ::
  "building \<Rightarrow> string \<Rightarrow> price_table \<Rightarrow> real \<Rightarrow> int \<Rightarrow> py_error + expr" where
  "define_operation_cost b pt prices factor timestep_delta =
     foldM (operation_cost_step pt prices factor timestep_delta)
       (concat (map (\<lambda>timestep. map (\<lambda>output. (timestep, output)) (outputs b)) (timesteps b)))
       (Lit 0)"

definition define_investment_cost :: "building \<Rightarrow> string \<Rightarrow> expr" where
  "define_investment_cost b pt =
     (if pt = ''storage_planning'' then
        (if str_in ''sensible'' (building_storage_type b) then
           py_add (Lit 0)
             (py_add
                (py_add
                   (py_mul (V variable_storage_size)
                           (Lit (storage_planning_energy_installation_cost b)))
                   (py_mul (py_div (V variable_storage_peak_power) (Lit 1000))
                           (Lit (storage_planning_power_installation_cost b))))
                (py_mul (V variable_storage_exists)
                        (Lit (storage_planning_fixed_installation_cost b))))
         else if str_in ''battery'' (building_storage_type b) then
           py_add (Lit 0)
             (py_add
                (py_add
                   (py_mul (py_div (py_div (V variable_storage_size) (Lit 3600)) (Lit 1000))
                           (Lit (storage_planning_energy_installation_cost b)))
                   (py_mul (py_div (V variable_storage_peak_power) (Lit 1000))
                           (Lit (storage_planning_power_installation_cost b))))
                (py_mul (V variable_storage_exists)
                        (Lit (storage_planning_fixed_installation_cost b))))
         else Lit 0)
      else if pt = ''load_reduction'' then py_sub (Lit 0) (V variable_load_reduction)
      else Lit 0)"

subsection \<open>The constructor\<close>

text \<open>
  The constructor runs on the store of price tables. It first copies the building's
  price table to a fresh address; only that copy is written to later. It returns the
  store it leaves behind together with the object, or with the exception it raised.
\<close>

definition OptimizationProblem_init ::
  "store \<Rightarrow> building \<Rightarrow> init_args \<Rightarrow> store \<times> (py_error + optimization_problem)" where
  "OptimizationProblem_init st b args =
     (let copy = length st;
          st1 = st @ [st ! electricity_price_timeseries b]
      in
      case define_constraints b args of
        Inl e \<Rightarrow> (st1, Inl e)
      | Inr (timestep_delta, cs) \<Rightarrow>
      (case define_operation_cost_factor b (problem_type args) timestep_delta of
        Inl e \<Rightarrow> (st1, Inl e)
      | Inr factor \<Rightarrow>
      (case modify_price args (st1 ! copy) of
        Inl e \<Rightarrow> (st1, Inl e)
      | Inr prices \<Rightarrow>
      (let st2 = st1[copy := prices] in
       case define_operation_cost b (problem_type args) (st2 ! copy) factor timestep_delta of
        Inl e \<Rightarrow> (st2, Inl e)
      | Inr opex \<Rightarrow>
          (st2, Inr \<lparr>
             self_building = b,
             self_args = args,
             self_electricity_price_timeseries = copy,
             variables = define_variables b (problem_type args),
             constraints = cs,
             operation_cost = opex,
             investment_cost = define_investment_cost b (problem_type args),
             operation_cost_factor = factor,
             objective = py_add opex (define_investment_cost b (problem_type args)),
             self_result = None \<rparr>)))))"

section \<open>\<^verbatim>\<open>OptimizationProblem.solve\<close>\<close>

text \<open>
  A result table: a cell per (timestep, column name) of its index; a cell holds a number
  or is missing (\<open>None\<close>: pandas stores the missing value when \<^verbatim>\<open>None\<close> is written
  to a cell of a float table).
\<close>

type_synonym table = "int \<times> string \<rightharpoonup> real option"

definition DataFrame :: "real \<Rightarrow> int list \<Rightarrow> string list \<Rightarrow> table" where
  "DataFrame x index columns =
     (\<lambda>(t, c). if t \<in> set index \<and> c \<in> set columns then Some (Some x) else None)"

definition at_set :: "table \<Rightarrow> int \<Rightarrow> string \<Rightarrow> real option \<Rightarrow> table" where
  "at_set df t c x = df((t, c) \<mapsto> x)"

definition retrieve_row ::
  "(var \<Rightarrow> real option) \<Rightarrow> (int \<Rightarrow> string \<Rightarrow> var) \<Rightarrow> string list \<Rightarrow> int \<Rightarrow> table \<Rightarrow> table" where
  "retrieve_row vals family names timestep df =
     fold (\<lambda>n df'. at_set df' timestep n (vals (family timestep n))) names df"

definition retrieve_results ::
  "building \<Rightarrow> (var \<Rightarrow> real option) \<Rightarrow> table \<times> table \<times> table" where
  "retrieve_results b vals =
     fold (\<lambda>timestep (control_vector, state_vector, output_vector).
        (retrieve_row vals variable_control_vector (controls b) timestep control_vector,
         retrieve_row vals variable_state_vector (states b) timestep state_vector,
         retrieve_row vals variable_output_vector (outputs b) timestep output_vector))
       (timesteps b)
       (DataFrame 0 (timesteps b) (controls b),
        DataFrame 0 (timesteps b) (states b),
        DataFrame 0 (timesteps b) (outputs b))"

text \<open>
  \<^verbatim>\<open>pyo.value\<close> of an expression: its number under the variables' values; it raises
  \<^verbatim>\<open>ValueError\<close> when a variable in the expression has no value.
\<close>

fun value_of :: "(var \<Rightarrow> real option) \<Rightarrow> expr \<Rightarrow> real option" where
  "value_of vals (Lit x) = Some x"
| "value_of vals (V v) = vals v"
| "value_of vals (Add x y) =
     (case (value_of vals x, value_of vals y) of (Some p, Some q) \<Rightarrow> Some (p + q) | _ \<Rightarrow> None)"
| "value_of vals (Sub x y) =
     (case (value_of vals x, value_of vals y) of (Some p, Some q) \<Rightarrow> Some (p - q) | _ \<Rightarrow> None)"
| "value_of vals (Mul x y) =
     (case (value_of vals x, value_of vals y) of (Some p, Some q) \<Rightarrow> Some (p * q) | _ \<Rightarrow> None)"
| "value_of vals (Div x y) =
     (case (value_of vals x, value_of vals y) of (Some p, Some q) \<Rightarrow> Some (p / q) | _ \<Rightarrow> None)"

definition pyo_value :: "(var \<Rightarrow> real option) \<Rightarrow> expr \<Rightarrow> py_error + real" where
  "pyo_value vals e = (case value_of vals e of None \<Rightarrow> Inl ValueError | Some x \<Rightarrow> Inr x)"

definition retrieve_cost :: "(var \<Rightarrow> real option) \<Rightarrow> expr \<Rightarrow> py_error + real" where
  "retrieve_cost vals cost = (if is_float cost then Inr (float_of cost) else pyo_value vals cost)"

definition retrieve_storage_size :: "string \<Rightarrow> (var \<Rightarrow> real option) \<Rightarrow> real option" where
  "retrieve_storage_size pt vals =
     (if pt = ''storage_planning'' then vals variable_storage_size
      else if pt = ''storage_planning_baseline'' then Some 0
      else None)"

text \<open>The tuple that \<^verbatim>\<open>solve\<close> returns.\<close>

record solve_output =
  control_vector :: table
  state_vector :: table
  output_vector :: table
  operation_cost_value :: real
  investment_cost_value :: real
  storage_size :: "real option"

text \<open>
  The body of \<^verbatim>\<open>solve\<close> from the point where the solver call has returned: it takes
  what the call returned, stores that in \<^verbatim>\<open>self.result\<close> and goes on to read the
  variables and the costs. It returns the object and the tuple, or the exception raised
  while evaluating a cost.
\<close>

definition solve ::
  "optimization_problem \<Rightarrow> solver_result \<Rightarrow> optimization_problem \<times> (py_error + solve_output)" where
  "solve self res =
     (let self' = self\<lparr>self_result := Some res\<rparr>;
          vals = var_values res;
          tables = retrieve_results (self_building self) vals
      in
      (self',
       bindR (retrieve_cost vals (operation_cost self)) (\<lambda>opex.
       bindR (retrieve_cost vals (investment_cost self)) (\<lambda>capex.
         Inr \<lparr> control_vector = fst tables,
               state_vector = fst (snd tables),
               output_vector = snd (snd tables),
               operation_cost_value = opex,
               investment_cost_value = capex,
               storage_size = retrieve_storage_size (problem_type (self_args self)) vals \<rparr>))))"

text \<open>
  The method \<^verbatim>\<open>solve\<close> as a whole. Its first statement calls the solver on the model
  and assigns what the call returns to \<^verbatim>\<open>self.result\<close>. The solver is not part of this
  program: a call of it either raises or returns a result, with any termination status.
  When the call raises, the exception leaves the method before the assignment; when it
  returns, the method goes on as above.
\<close>

type_synonym solver = "optimization_problem \<Rightarrow> py_error + solver_result"

definition OptimizationProblem_solve ::
  "solver \<Rightarrow> optimization_problem \<Rightarrow> optimization_problem \<times> (py_error + solve_output)" where
  "OptimizationProblem_solve self_solver self =
     (case self_solver self of
        Inl e \<Rightarrow> (self, Inl e)
      | Inr res \<Rightarrow> solve self res)"

section \<open>Feasible and optimal assignments\<close>

text \<open>
  An assignment is feasible for a problem when every declared variable lies in its
  domain and every constraint holds. It is optimal when no feasible assignment has a
  smaller objective value.
\<close>

definition feasible :: "optimization_problem \<Rightarrow> (var \<Rightarrow> real) \<Rightarrow> bool" where
  "feasible p a =
     (list_all (\<lambda>(v, d). in_domain d (a v)) (variables p) \<and> list_all (holds a) (constraints p))"

definition is_optimal :: "optimization_problem \<Rightarrow> (var \<Rightarrow> real) \<Rightarrow> bool" where
  "is_optimal p a =
     (feasible p a \<and> (\<forall>a'. feasible p a' \<longrightarrow> eval a (objective p) \<le> eval a' (objective p)))"

section \<open>Equally spaced timesteps\<close>

text \<open>Every timestep but the first is its predecessor plus the first spacing.\<close>

fun spaced :: "int \<Rightarrow> int list \<Rightarrow> bool" where
  "spaced d (x # y # r) = (y = x + d \<and> spaced d (y # r))"
| "spaced d r = True"

definition equally_spaced :: "int list \<Rightarrow> bool" where
  "equally_spaced ts = spaced (ts ! 1 - ts ! 0) ts"

section \<open>A small building\<close>

text \<open>
  One zone, one heater, three half-hour timesteps, two outputs: the grid power and the
  zone temperature. Its price table is at address 0 of the store.
\<close>

definition example_building :: building where
  "example_building = \<lparr>
     timesteps = [0, 1800, 3600],
     states = [''zone_temperature''],
     controls = [''heat_power''],
     outputs = [''grid_electric_power'', ''zone_temperature''],
     disturbances = [''ambient_temperature''],
     state_matrix = (\<lambda>r c. 1 / 2),
     control_matrix = (\<lambda>r c. 1 / 1000),
     disturbance_matrix = (\<lambda>r c. 1 / 2),
     state_output_matrix = (\<lambda>r c. if r = ''zone_temperature'' then 1 else 0),
     control_output_matrix = (\<lambda>r c. if r = ''grid_electric_power'' then 1 else 0),
     disturbance_output_matrix = (\<lambda>r c. 0),
     disturbance_timeseries = (\<lambda>t d. 20),
     state_vector_initial = (\<lambda>s. 24),
     output_constraint_timeseries_minimum = (\<lambda>t n. if n = ''zone_temperature'' then 20 else 0),
     output_constraint_timeseries_maximum = (\<lambda>t n. if n = ''zone_temperature'' then 26 else 5000),
     electricity_price_timeseries = 0,
     building_storage_type = ''sensible_thermal_storage'',
     storage_battery_depth_of_discharge = 4 / 5,
     storage_lifetime = 20,
     storage_planning_energy_installation_cost = 100,
     storage_planning_power_installation_cost = 0,
     storage_planning_fixed_installation_cost = 0,
     water_density = 1000 \<rparr>"

definition example_store :: store where
  "example_store = [[0 \<mapsto> 2, 1800 \<mapsto> 3, 3600 \<mapsto> 4]]"

definition example_args :: "string \<Rightarrow> init_args" where
  "example_args pt = \<lparr>
     problem_type = pt,
     output_vector_reference = None,
     load_reduction_start_time = None,
     load_reduction_end_time = None,
     price_sensitivity_factor = None,
     price_sensitivity_timestep = None \<rparr>"

text \<open>A constraint of the form \<open>l \<ge> r\<close>.\<close>

fun is_Ge :: "constraint \<Rightarrow> bool" where
  "is_Ge (Ge l r) = True"
| "is_Ge c = False"

text \<open>
  Values left by a solver run on the small building in which only the heater's variable
  at the first timestep has no value.
\<close>

definition heat_unset :: "var \<Rightarrow> real option" where
  "heat_unset v = (if v = variable_control_vector 0 ''heat_power'' then None else Some 0)"

text \<open>The small building without its grid power output.\<close>

definition example_building_thermal :: building where
  "example_building_thermal = example_building\<lparr>outputs := [''zone_temperature'']\<rparr>"

text \<open>
  An assignment for the small building: the zone stays at 24 degrees, heated with 2000 W
  over the first two timesteps.
\<close>

definition example_assignment :: "var \<Rightarrow> real" where
  "example_assignment v =
     (case v of
        variable_state_vector t n \<Rightarrow> 24
      | variable_control_vector t n \<Rightarrow> (if t = 3600 then 0 else 2000)
      | variable_output_vector t n \<Rightarrow>
          (if n = ''grid_electric_power'' then (if t = 3600 then 0 else 2000) else 24)
      | _ \<Rightarrow> 0)"

text \<open>Arguments that double the price of the small building at the second timestep.\<close>

definition example_price_sensitivity :: init_args where
  "example_price_sensitivity = (example_args ''price_sensitivity'')
     \<lparr>price_sensitivity_factor := Some 2, price_sensitivity_timestep := Some 1800\<rparr>"





text \<open>The variable occurs in the expression, in the constraint.\<close>

fun mentions :: "var \<Rightarrow> expr \<Rightarrow> bool" where
  "mentions v (Lit x) = False"
| "mentions v (V w) = (v = w)"
| "mentions v (Add x y) = (mentions v x \<or> mentions v y)"
| "mentions v (Sub x y) = (mentions v x \<or> mentions v y)"
| "mentions v (Mul x y) = (mentions v x \<or> mentions v y)"
| "mentions v (Div x y) = (mentions v x \<or> mentions v y)"

fun constraint_mentions :: "var \<Rightarrow> constraint \<Rightarrow> bool" where
  "constraint_mentions v (Eq l r) = (mentions v l \<or> mentions v r)"
| "constraint_mentions v (Ge l r) = (mentions v l \<or> mentions v r)"
| "constraint_mentions v (Le l r) = (mentions v l \<or> mentions v r)"

text \<open>
  An assignment for the small building under \<^verbatim>\<open>storage_planning\<close>: no heating, so the
  zone cools from 24 to 22 to 21 degrees; no storage is built (size and peak power 0);
  \<open>e\<close> is the value of \<open>storage_exists\<close>.
\<close>

definition example_idle :: "real \<Rightarrow> var \<Rightarrow> real" where
  "example_idle e v =
     (case v of
        variable_state_vector t n \<Rightarrow> (if t = 0 then 24 else if t = 1800 then 22 else 21)
      | variable_control_vector t n \<Rightarrow> 0
      | variable_output_vector t n \<Rightarrow>
          (if n = ''grid_electric_power'' then 0
           else if t = 0 then 24 else if t = 1800 then 22 else 21)
      | variable_storage_exists \<Rightarrow> e
      | _ \<Rightarrow> 0)"

text \<open>The small building with a fixed installation cost of 50.\<close>

definition example_building_fixed_cost :: building where
  "example_building_fixed_cost =
     example_building\<lparr>storage_planning_fixed_installation_cost := 50\<rparr>"

text \<open>
  The small building in a hot climate: with an ambient temperature of 30 degrees the zone
  is above its upper bound at the second timestep whatever the heater does.
\<close>

definition example_building_hot :: building where
  "example_building_hot = example_building\<lparr>disturbance_timeseries := (\<lambda>t d. 30)\<rparr>"

text \<open>The same building without its grid power output.\<close>

definition example_building_hot_thermal :: building where
  "example_building_hot_thermal = example_building_hot\<lparr>outputs := [''zone_temperature'']\<rparr>"

text \<open>
  A solver that reports the model infeasible and leaves every variable without a value.
\<close>

definition reports_infeasible :: solver where
  "reports_infeasible self =
     Inr \<lparr>termination_status = infeasible, var_values = (\<lambda>v. None)\<rparr>"

section \<open>Basic facts\<close>

lemma bindR_simps [simp]: "bindR (Inr x) f = f x" "bindR (Inl e) f = Inl e"
  by (simp_all add: bindR_def)

lemma bindR_eq_Inr: "bindR m f = Inr y \<longleftrightarrow> (\<exists>x. m = Inr x \<and> f x = Inr y)"
  by (cases m) simp_all

lemma mapM_pure: "mapM (\<lambda>x. Inr (g x)) xs = Inr (map g xs)"
  by (induction xs) simp_all

lemma mapM_eq_Inr: "mapM f xs = Inr ys \<longleftrightarrow> map f xs = map Inr ys"
proof (induction xs arbitrary: ys)
  case Nil
  show ?case by auto
next
  case (Cons x xs)
  show ?case
  proof (cases "f x")
    case (Inl e)
    then show ?thesis by (cases ys) auto
  next
    case (Inr y)
    show ?thesis
    proof (cases "mapM f xs")
      case (Inl e)
      with Inr Cons.IH show ?thesis by (cases ys) auto
    next
      case r: (Inr zs)
      with Inr Cons.IH [of zs] Cons.IH show ?thesis by (cases ys) auto
    qed
  qed
qed

lemma mapM_determined:
  assumes "mapM f xs = Inr ys" and "\<And>x y. x \<in> set xs \<Longrightarrow> f x = Inr y \<Longrightarrow> y = g x"
  shows "ys = map g xs"
proof -
  from assms(1) have m: "map f xs = map Inr ys" by (simp add: mapM_eq_Inr)
  then have len: "length ys = length xs" by (metis length_map)
  show ?thesis
  proof (rule nth_equalityI)
    show "length ys = length (map g xs)" using len by simp
  next
    fix i assume "i < length ys"
    with len have i: "i < length xs" by simp
    from m have "map f xs ! i = map Inr ys ! i" by simp
    with i len have "f (xs ! i) = Inr (ys ! i)" by simp
    with assms(2) [of "xs ! i" "ys ! i"] i show "ys ! i = map g xs ! i" by simp
  qed
qed

lemma spaced_nth: "spaced d ts \<Longrightarrow> Suc i < length ts \<Longrightarrow> ts ! Suc i = ts ! i + d"
proof (induction d ts arbitrary: i rule: spaced.induct)
  case (1 d x y r)
  then show ?case by (cases i) auto
qed simp_all

lemma eval_py_add [simp]: "eval a (py_add x y) = eval a x + eval a y"
  by (cases x; cases y) (simp_all add: py_add_def)

lemma eval_py_sub [simp]: "eval a (py_sub x y) = eval a x - eval a y"
  by (cases x; cases y) (simp_all add: py_sub_def)

lemma eval_py_mul [simp]: "eval a (py_mul x y) = eval a x * eval a y"
  by (cases x; cases y) (simp_all add: py_mul_def)

lemma eval_py_div [simp]: "eval a (py_div x y) = eval a x / eval a y"
  by (cases x; cases y) (simp_all add: py_div_def)

lemma eval_foldl_py_add: "eval a (foldl py_add e es) = eval a e + sum_list (map (eval a) es)"
  by (induction es arbitrary: e) simp_all

lemma eval_py_sum [simp]: "eval a (py_sum es) = sum_list (map (eval a) es)"
  by (simp add: py_sum_def eval_foldl_py_add)

lemma init_Inr:
  assumes "OptimizationProblem_init st b args = (st', Inr p)"
  shows "\<exists>timestep_delta factor prices.
     define_constraints b args = Inr (timestep_delta, constraints p)
     \<and> define_operation_cost_factor b (problem_type args) timestep_delta = Inr factor
     \<and> modify_price args (st ! electricity_price_timeseries b) = Inr prices
     \<and> define_operation_cost b (problem_type args) prices factor timestep_delta
         = Inr (operation_cost p)
     \<and> st' = st @ [prices]
     \<and> self_building p = b \<and> self_args p = args
     \<and> self_electricity_price_timeseries p = length st
     \<and> variables p = define_variables b (problem_type args)
     \<and> investment_cost p = define_investment_cost b (problem_type args)
     \<and> operation_cost_factor p = factor
     \<and> objective p = py_add (operation_cost p) (investment_cost p)
     \<and> self_result p = None"
  using assms
  by (auto simp: OptimizationProblem_init_def Let_def split: sum.splits prod.splits)

lemma define_constraints_Inr:
  assumes "define_constraints b args = Inr (d, cs)"
  shows "\<exists>initial dynamics auxiliary.
     initial_state_constraints b = Inr initial
     \<and> timestep_delta_of b = Inr d
     \<and> state_equation_constraints b d = Inr dynamics
     \<and> auxiliary_constraints b args = Inr auxiliary
     \<and> cs = initial @ dynamics @ output_equation_constraints b
            @ output_bound_constraints b (problem_type args) @ auxiliary"
  using assms by (auto simp: define_constraints_def bindR_eq_Inr)

lemma timestep_delta_of_Inr:
  assumes "timestep_delta_of b = Inr d"
  shows "2 \<le> length (timesteps b) \<and> d = timesteps b ! 1 - timesteps b ! 0"
  using assms by (auto simp: timestep_delta_of_def split: list.splits)

lemma initial_state_constraints_eq:
  assumes "timesteps b \<noteq> []"
  shows "initial_state_constraints b =
    Inr (map (\<lambda>state. Eq (V (variable_state_vector (timesteps b ! 0) state))
                          (Lit (state_vector_initial b state))) (states b))"
proof -
  from assms obtain t0 r where ts: "timesteps b = t0 # r" by (cases "timesteps b") auto
  show ?thesis by (simp add: initial_state_constraints_def ts mapM_pure)
qed

lemma state_equation_constraints_Inr:
  assumes "state_equation_constraints b d = Inr dynamics"
  shows "dynamics = concat (map (\<lambda>state. map (\<lambda>t.
      Eq (V (variable_state_vector (t + d) state)) (state_equation_rhs b state t))
      (butlast (timesteps b))) (states b))"
proof -
  from assms obtain rows where
    rows: "mapM (\<lambda>state. mapM (state_equation b d state) (butlast (timesteps b))) (states b) = Inr rows"
    and dyn: "dynamics = concat rows"
    by (auto simp: state_equation_constraints_def bindR_eq_Inr)
  have "rows = map (\<lambda>state. map (\<lambda>t.
      Eq (V (variable_state_vector (t + d) state)) (state_equation_rhs b state t))
      (butlast (timesteps b))) (states b)"
  proof (rule mapM_determined [OF rows])
    fix state row
    assume "mapM (state_equation b d state) (butlast (timesteps b)) = Inr row"
    then show "row = map (\<lambda>t. Eq (V (variable_state_vector (t + d) state))
        (state_equation_rhs b state t)) (butlast (timesteps b))"
      by (rule mapM_determined) (auto simp: state_equation_def split: if_splits)
  qed
  with dyn show ?thesis by simp
qed

lemma butlast_pairs:
  assumes "spaced d ts"
  shows "map (\<lambda>t. f (t + d) t) (butlast ts) = map (\<lambda>i. f (ts ! Suc i) (ts ! i)) [0..<length ts - 1]"
proof (rule nth_equalityI)
  show "length (map (\<lambda>t. f (t + d) t) (butlast ts))
      = length (map (\<lambda>i. f (ts ! Suc i) (ts ! i)) [0..<length ts - 1])"
    by simp
next
  fix i assume "i < length (map (\<lambda>t. f (t + d) t) (butlast ts))"
  then have i: "i < length ts - 1" by simp
  then have "Suc i < length ts" by simp
  with assms have "ts ! Suc i = ts ! i + d" by (rule spaced_nth)
  with i show "map (\<lambda>t. f (t + d) t) (butlast ts) ! i
      = map (\<lambda>i. f (ts ! Suc i) (ts ! i)) [0..<length ts - 1] ! i"
    by (simp add: nth_butlast)
qed

lemma eval_state_equation_rhs:
  "eval a (state_equation_rhs b state t) =
     (\<Sum>state_other\<leftarrow>states b. state_matrix b state state_other * a (variable_state_vector t state_other))
   + (\<Sum>control\<leftarrow>controls b. control_matrix b state control * a (variable_control_vector t control))
   + (\<Sum>disturbance\<leftarrow>disturbances b. disturbance_matrix b state disturbance * disturbance_timeseries b t disturbance)"
  by (simp add: state_equation_rhs_def comp_def)

section \<open>Evaluating the constructor on the small building\<close>

lemmas constructor_defs =
  OptimizationProblem_init_def define_constraints_def initial_state_constraints_def
  timestep_delta_of_def state_equation_constraints_def state_equation_def
  auxiliary_constraints_def define_operation_cost_factor_def modify_price_def
  define_operation_cost_def operation_cost_step_def is_electric_demand_def
  load_reduction_constraints_def load_reduction_step_def load_reduction_equation_def
  reference_term_def

lemma example_init_operation:
  "\<exists>st' p. OptimizationProblem_init example_store example_building (example_args ''operation'')
     = (st', Inr p)"
  by (simp add: constructor_defs example_building_def example_store_def example_args_def Let_def)

section \<open>Initial state and state equation (C1)\<close>

text \<open>
  C1. Whenever the constructor formulates a model for a building with equally spaced
  timesteps, the constraint list starts with one equality per state that pins the state
  variable at the first timestep to \<open>state_vector_initial\<close>, followed, for each state and
  each of the \<open>N - 1\<close> pairs of consecutive timesteps, by an equality between the state
  variable at the later timestep and an expression whose value is
  \<open>A \<cdot> state[t] + B \<cdot> control[t] + E \<cdot> disturbance[t]\<close> at the earlier timestep.
\<close>

theorem initial_state_and_state_equation_constraints:
  assumes "OptimizationProblem_init st b args = (st', Inr p)"
    and "equally_spaced (timesteps b)"
  shows "(\<exists>others. constraints p =
       map (\<lambda>state. Eq (V (variable_state_vector (timesteps b ! 0) state))
                       (Lit (state_vector_initial b state))) (states b)
       @ concat (map (\<lambda>state. map (\<lambda>i.
            Eq (V (variable_state_vector (timesteps b ! Suc i) state))
               (state_equation_rhs b state (timesteps b ! i)))
            [0..<length (timesteps b) - 1]) (states b))
       @ others)
     \<and> (\<forall>a state t. eval a (state_equation_rhs b state t) =
         (\<Sum>state_other\<leftarrow>states b.
            state_matrix b state state_other * a (variable_state_vector t state_other))
       + (\<Sum>control\<leftarrow>controls b.
            control_matrix b state control * a (variable_control_vector t control))
       + (\<Sum>disturbance\<leftarrow>disturbances b.
            disturbance_matrix b state disturbance * disturbance_timeseries b t disturbance))"
proof -
  from init_Inr [OF assms(1)] obtain d where
    "define_constraints b args = Inr (d, constraints p)" by blast
  from define_constraints_Inr [OF this] obtain initial dynamics auxiliary where
    ini: "initial_state_constraints b = Inr initial"
    and delta: "timestep_delta_of b = Inr d"
    and dyn: "state_equation_constraints b d = Inr dynamics"
    and cs: "constraints p = initial @ dynamics @ output_equation_constraints b
            @ output_bound_constraints b (problem_type args) @ auxiliary"
    by blast
  from timestep_delta_of_Inr [OF delta] have
    len: "2 \<le> length (timesteps b)" and d: "d = timesteps b ! 1 - timesteps b ! 0"
    by simp_all
  from len have "timesteps b \<noteq> []" by auto
  from initial_state_constraints_eq [OF this] ini have
    initial: "initial = map (\<lambda>state. Eq (V (variable_state_vector (timesteps b ! 0) state))
                       (Lit (state_vector_initial b state))) (states b)"
    by simp
  from assms(2) d have sp: "spaced d (timesteps b)" by (simp add: equally_spaced_def)
  have dynamics: "dynamics = concat (map (\<lambda>state. map (\<lambda>i.
            Eq (V (variable_state_vector (timesteps b ! Suc i) state))
               (state_equation_rhs b state (timesteps b ! i)))
            [0..<length (timesteps b) - 1]) (states b))"
    unfolding state_equation_constraints_Inr [OF dyn]
    using butlast_pairs [OF sp, of "\<lambda>t' t. Eq (V (variable_state_vector t' s)) (state_equation_rhs b s t)" for s]
    by simp
  show ?thesis
    using cs initial dynamics eval_state_equation_rhs by auto
qed

theorem initial_state_and_state_equation_constraints_witness:
  "\<exists>st' p others.
     OptimizationProblem_init example_store example_building (example_args ''operation'')
       = (st', Inr p)
     \<and> equally_spaced (timesteps example_building)
     \<and> constraints p =
         [Eq (V (variable_state_vector 0 ''zone_temperature'')) (Lit 24),
          Eq (V (variable_state_vector 1800 ''zone_temperature''))
             (state_equation_rhs example_building ''zone_temperature'' 0),
          Eq (V (variable_state_vector 3600 ''zone_temperature''))
             (state_equation_rhs example_building ''zone_temperature'' 1800)] @ others
     \<and> eval (\<lambda>v. 1) (state_equation_rhs example_building ''zone_temperature'' 0) = 10501 / 1000"
proof -
  obtain st' p where
    init: "OptimizationProblem_init example_store example_building (example_args ''operation'')
       = (st', Inr p)"
    using example_init_operation by blast
  have es: "equally_spaced (timesteps example_building)"
    by (simp add: equally_spaced_def example_building_def)
  note main = initial_state_and_state_equation_constraints [OF init es]
  from main obtain others where "constraints p =
       map (\<lambda>state. Eq (V (variable_state_vector (timesteps example_building ! 0) state))
                       (Lit (state_vector_initial example_building state))) (states example_building)
       @ concat (map (\<lambda>state. map (\<lambda>i.
            Eq (V (variable_state_vector (timesteps example_building ! Suc i) state))
               (state_equation_rhs example_building state (timesteps example_building ! i)))
            [0..<length (timesteps example_building) - 1]) (states example_building))
       @ others" by blast
  moreover have "timesteps example_building = [0, 1800, 3600]"
    and "states example_building = [''zone_temperature'']"
    and "state_vector_initial example_building = (\<lambda>s. 24)"
    by (simp_all add: example_building_def)
  moreover have "[0..<length [0::int, 1800, 3600] - 1] = [0, 1]"
    by (simp add: upt_rec)
  ultimately have cs: "constraints p =
         [Eq (V (variable_state_vector 0 ''zone_temperature'')) (Lit 24),
          Eq (V (variable_state_vector 1800 ''zone_temperature''))
             (state_equation_rhs example_building ''zone_temperature'' 0),
          Eq (V (variable_state_vector 3600 ''zone_temperature''))
             (state_equation_rhs example_building ''zone_temperature'' 1800)] @ others"
    by simp
  from main have "eval (\<lambda>v. 1) (state_equation_rhs example_building ''zone_temperature'' 0) =
         (\<Sum>state_other\<leftarrow>states example_building.
            state_matrix example_building ''zone_temperature'' state_other * 1)
       + (\<Sum>control\<leftarrow>controls example_building.
            control_matrix example_building ''zone_temperature'' control * 1)
       + (\<Sum>disturbance\<leftarrow>disturbances example_building.
            disturbance_matrix example_building ''zone_temperature'' disturbance
            * disturbance_timeseries example_building 0 disturbance)"
    by blast
  then have ev: "eval (\<lambda>v. 1) (state_equation_rhs example_building ''zone_temperature'' 0)
     = 10501 / 1000"
    by (simp add: example_building_def)
  from init es cs ev show ?thesis by blast
qed

section \<open>Where the constraints come from\<close>

lemma mapM_set:
  assumes "mapM f xs = Inr ys" and "y \<in> set ys"
  shows "\<exists>x\<in>set xs. f x = Inr y"
proof -
  from assms(1) have "map f xs = map Inr ys" by (simp add: mapM_eq_Inr)
  then have "set (map f xs) = set (map Inr ys)" by simp
  with assms(2) have "Inr y \<in> f ` set xs" by auto
  then show ?thesis by auto
qed

lemma set_output_bound_constraints:
  "c \<in> set (output_bound_constraints b pt) \<longleftrightarrow>
     (\<exists>output\<in>set (outputs b). \<exists>timestep\<in>set (timesteps b).
        c \<in> set (minimum_bound b pt output timestep)
        \<or> c \<in> set (maximum_bound b pt output timestep))"
  by (auto simp: output_bound_constraints_def)

lemma maximum_bound_not_Ge: "c \<in> set (maximum_bound b pt output timestep) \<Longrightarrow> \<not> is_Ge c"
  by (auto simp: maximum_bound_def split: if_splits)

lemma maximum_bound_Le: "c \<in> set (maximum_bound b pt output timestep) \<Longrightarrow> \<exists>l r. c = Le l r"
  by (auto simp: maximum_bound_def split: if_splits)

lemma initial_no_Ge:
  assumes "initial_state_constraints b = Inr cs" and "c \<in> set cs"
  shows "\<not> is_Ge c"
proof (cases "timesteps b")
  case Nil
  with mapM_set [OF assms [unfolded initial_state_constraints_def]] show ?thesis by auto
next
  case (Cons t0 r)
  with mapM_set [OF assms [unfolded initial_state_constraints_def]] show ?thesis by auto
qed

lemma dynamics_no_Ge:
  assumes "state_equation_constraints b d = Inr cs" and "c \<in> set cs"
  shows "\<not> is_Ge c"
  using assms(2) unfolding state_equation_constraints_Inr [OF assms(1)] by auto

lemma output_equation_no_Ge: "c \<in> set (output_equation_constraints b) \<Longrightarrow> \<not> is_Ge c"
  by (auto simp: output_equation_constraints_def output_equation_def)

lemma storage_planning_no_Ge: "c \<in> set (storage_planning_constraints b) \<Longrightarrow> \<not> is_Ge c"
  by (auto simp: storage_planning_constraints_def)

lemma load_reduction_step_no_Ge:
  assumes "load_reduction_step b args t = Inr cs" and "c \<in> set cs"
  shows "\<not> is_Ge c"
  using assms
  by (auto simp: load_reduction_step_def load_reduction_equation_def bindR_eq_Inr
      split: option.splits if_splits)

lemma load_reduction_no_Ge:
  assumes "load_reduction_constraints b args = Inr cs" and "c \<in> set cs"
  shows "\<not> is_Ge c"
proof -
  from assms(1) obtain rows where
    rows: "mapM (load_reduction_step b args) (timesteps b) = Inr rows" and cs: "cs = concat rows"
    by (auto simp: load_reduction_constraints_def bindR_eq_Inr)
  from assms(2) cs obtain row where "row \<in> set rows" and c: "c \<in> set row" by auto
  from mapM_set [OF rows this(1)] obtain t where "load_reduction_step b args t = Inr row" by blast
  from load_reduction_step_no_Ge [OF this c] show ?thesis .
qed

lemma auxiliary_no_Ge:
  assumes "auxiliary_constraints b args = Inr cs" and "c \<in> set cs"
  shows "\<not> is_Ge c"
  using assms storage_planning_no_Ge load_reduction_no_Ge
  by (auto simp: auxiliary_constraints_def split: if_splits)

lemma Ge_only_from_minimum_bound:
  assumes "define_constraints b args = Inr (d, cs)"
  shows "Ge l r \<in> set cs \<longleftrightarrow>
     (\<exists>output\<in>set (outputs b). \<exists>timestep\<in>set (timesteps b).
        Ge l r \<in> set (minimum_bound b (problem_type args) output timestep))"
proof -
  from define_constraints_Inr [OF assms] obtain initial dynamics auxiliary where
    ini: "initial_state_constraints b = Inr initial"
    and dyn: "state_equation_constraints b d = Inr dynamics"
    and aux: "auxiliary_constraints b args = Inr auxiliary"
    and cs: "cs = initial @ dynamics @ output_equation_constraints b
            @ output_bound_constraints b (problem_type args) @ auxiliary"
    by blast
  have "Ge l r \<notin> set initial" using initial_no_Ge [OF ini] by fastforce
  moreover have "Ge l r \<notin> set dynamics" using dynamics_no_Ge [OF dyn] by fastforce
  moreover have "Ge l r \<notin> set (output_equation_constraints b)"
    using output_equation_no_Ge by fastforce
  moreover have "Ge l r \<notin> set auxiliary" using auxiliary_no_Ge [OF aux] by fastforce
  moreover have "\<And>output timestep. Ge l r \<notin> set (maximum_bound b (problem_type args) output timestep)"
    using maximum_bound_not_Ge by fastforce
  ultimately show ?thesis
    by (simp add: cs set_output_bound_constraints)
qed

lemma example_init_maximum_load:
  "\<exists>st' p. OptimizationProblem_init example_store example_building (example_args ''maximum_load'')
     = (st', Inr p)"
  by (simp add: constructor_defs example_building_def example_store_def example_args_def Let_def)

section \<open>Lower bounds on the outputs (C8)\<close>

text \<open>
  C8. In a formulated model, for an output and a timestep of the building: the block of
  output bounds holds the equality of the output variable with its minimum-bound value
  exactly when the variant is \<^verbatim>\<open>maximum_load\<close>, the output's name contains
  \<^verbatim>\<open>temperature\<close> and the timestep is not the first one; and the model holds the
  inequality "output variable at least its minimum-bound value" exactly when the variant
  is not \<^verbatim>\<open>maximum_load\<close> or the name does not contain \<^verbatim>\<open>temperature\<close>. So a
  temperature output under \<^verbatim>\<open>maximum_load\<close> gets neither of the two at the first
  timestep.
\<close>

theorem maximum_load_pins_temperature_outputs:
  assumes "OptimizationProblem_init st b args = (st', Inr p)"
    and "output \<in> set (outputs b)" and "timestep \<in> set (timesteps b)"
  shows "(\<exists>before after. constraints p =
            before @ output_bound_constraints b (problem_type args) @ after)
     \<and> (Eq (V (variable_output_vector timestep output))
            (Lit (output_constraint_timeseries_minimum b timestep output))
          \<in> set (output_bound_constraints b (problem_type args))
        \<longleftrightarrow> problem_type args = ''maximum_load'' \<and> str_in ''temperature'' output
            \<and> timestep \<noteq> timesteps b ! 0)
     \<and> (Ge (V (variable_output_vector timestep output))
            (Lit (output_constraint_timeseries_minimum b timestep output))
          \<in> set (constraints p)
        \<longleftrightarrow> \<not> (problem_type args = ''maximum_load'' \<and> str_in ''temperature'' output))"
proof -
  from init_Inr [OF assms(1)] obtain d where
    dc: "define_constraints b args = Inr (d, constraints p)" by blast
  from define_constraints_Inr [OF dc] have
    split: "\<exists>before after. constraints p =
            before @ output_bound_constraints b (problem_type args) @ after"
    by (metis append.assoc)
  from assms(3) have hd: "hd (timesteps b) = timesteps b ! 0"
    by (cases "timesteps b") auto
  have pin: "Eq (V (variable_output_vector timestep output))
            (Lit (output_constraint_timeseries_minimum b timestep output))
          \<in> set (output_bound_constraints b (problem_type args))
        \<longleftrightarrow> problem_type args = ''maximum_load'' \<and> str_in ''temperature'' output
            \<and> timestep \<noteq> timesteps b ! 0"
    using assms(2,3) maximum_bound_Le [of _ b "problem_type args"]
    unfolding set_output_bound_constraints hd [symmetric]
    by (fastforce simp: minimum_bound_def split: if_splits)
  have lb: "Ge (V (variable_output_vector timestep output))
            (Lit (output_constraint_timeseries_minimum b timestep output))
          \<in> set (constraints p)
        \<longleftrightarrow> \<not> (problem_type args = ''maximum_load'' \<and> str_in ''temperature'' output)"
    using assms(2,3) unfolding Ge_only_from_minimum_bound [OF dc]
    by (fastforce simp: minimum_bound_def split: if_splits)
  from split pin lb show ?thesis by blast
qed

theorem maximum_load_pins_temperature_outputs_witness:
  "\<exists>st' p.
     OptimizationProblem_init example_store example_building (example_args ''maximum_load'')
       = (st', Inr p)
     \<and> ''zone_temperature'' \<in> set (outputs example_building)
     \<and> 1800 \<in> set (timesteps example_building)
     \<and> Eq (V (variable_output_vector 1800 ''zone_temperature'')) (Lit 20)
         \<in> set (output_bound_constraints example_building ''maximum_load'')
     \<and> Ge (V (variable_output_vector 1800 ''zone_temperature'')) (Lit 20)
         \<notin> set (constraints p)"
proof -
  obtain st' p where
    init: "OptimizationProblem_init example_store example_building (example_args ''maximum_load'')
       = (st', Inr p)"
    using example_init_maximum_load by blast
  have out: "''zone_temperature'' \<in> set (outputs example_building)"
    and ts: "1800 \<in> set (timesteps example_building)"
    by (simp_all add: example_building_def)
  have facts: "problem_type (example_args ''maximum_load'') = ''maximum_load''"
    "str_in ''temperature'' ''zone_temperature''"
    "timesteps example_building ! 0 = 0"
    "output_constraint_timeseries_minimum example_building 1800 ''zone_temperature'' = 20"
    by (simp_all add: example_args_def example_building_def)
  from maximum_load_pins_temperature_outputs [OF init out ts]
  have "Eq (V (variable_output_vector 1800 ''zone_temperature'')) (Lit 20)
         \<in> set (output_bound_constraints example_building ''maximum_load'')"
    and "Ge (V (variable_output_vector 1800 ''zone_temperature'')) (Lit 20)
         \<notin> set (constraints p)"
    by (simp_all add: facts)
  with init out ts show ?thesis by blast
qed

section \<open>What \<^verbatim>\<open>solve\<close> reads\<close>

lemma retrieve_row_eq:
  "retrieve_row vals family names timestep df =
     (\<lambda>(t, n). if t = timestep \<and> n \<in> set names then Some (vals (family timestep n))
               else df (t, n))"
  unfolding retrieve_row_def
proof (induction names arbitrary: df)
  case Nil
  show ?case by auto
next
  case (Cons n names)
  show ?case
    unfolding fold_simps Cons.IH
    by (rule ext) (auto simp: at_set_def)
qed

lemma fold_retrieve_row_eq:
  "fold (retrieve_row vals family names) ts df =
     (\<lambda>(t, n). if t \<in> set ts \<and> n \<in> set names then Some (vals (family t n)) else df (t, n))"
proof (induction ts arbitrary: df)
  case Nil
  show ?case by auto
next
  case (Cons t ts)
  show ?case
    unfolding fold_simps Cons.IH
    by (rule ext) (auto simp: retrieve_row_eq)
qed

lemma fold_triple:
  "fold (\<lambda>x (u, v, w). (f x u, g x v, h x w)) xs (u0, v0, w0)
     = (fold f xs u0, fold g xs v0, fold h xs w0)"
  by (induction xs arbitrary: u0 v0 w0) simp_all

lemma retrieve_results_eq:
  "retrieve_results b vals =
     ((\<lambda>(t, n). if t \<in> set (timesteps b) \<and> n \<in> set (controls b)
                 then Some (vals (variable_control_vector t n)) else None),
      (\<lambda>(t, n). if t \<in> set (timesteps b) \<and> n \<in> set (states b)
                 then Some (vals (variable_state_vector t n)) else None),
      (\<lambda>(t, n). if t \<in> set (timesteps b) \<and> n \<in> set (outputs b)
                 then Some (vals (variable_output_vector t n)) else None))"
  unfolding retrieve_results_def fold_triple fold_retrieve_row_eq
  by (auto simp: DataFrame_def fun_eq_iff)

lemma value_of_total: "value_of (\<lambda>v. Some (a v)) e = Some (eval a e)"
  by (induction e) simp_all

lemma retrieve_cost_total: "retrieve_cost (\<lambda>v. Some (a v)) e = Inr (eval a e)"
  by (cases e) (simp_all add: retrieve_cost_def pyo_value_def value_of_total)

lemma retrieve_cost_value_of:
  "value_of vals e = Some x \<Longrightarrow> retrieve_cost vals e = Inr x"
  by (cases e) (simp_all add: retrieve_cost_def pyo_value_def)

lemma solve_Inr:
  assumes "snd (solve p res) = Inr out"
  shows "control_vector out = fst (retrieve_results (self_building p) (var_values res))
     \<and> state_vector out = fst (snd (retrieve_results (self_building p) (var_values res)))
     \<and> output_vector out = snd (snd (retrieve_results (self_building p) (var_values res)))
     \<and> retrieve_cost (var_values res) (operation_cost p) = Inr (operation_cost_value out)
     \<and> retrieve_cost (var_values res) (investment_cost p) = Inr (investment_cost_value out)
     \<and> storage_size out = retrieve_storage_size (problem_type (self_args p)) (var_values res)"
  using assms by (auto simp: solve_def Let_def bindR_eq_Inr)

lemma solve_returns:
  assumes "retrieve_cost (var_values res) (operation_cost p) = Inr x"
    and "retrieve_cost (var_values res) (investment_cost p) = Inr y"
  shows "\<exists>out. snd (solve p res) = Inr out"
  using assms by (simp add: solve_def Let_def)

lemma example_operation_cost:
  assumes "OptimizationProblem_init example_store example_building (example_args ''operation'')
     = (st', Inr p)"
  shows "operation_cost p =
     Add (Add (Add (Lit 0)
       (Mul (Mul (Div (Div (Mul (V (variable_output_vector 0 ''grid_electric_power'')) (Lit 1800))
          (Lit 3600)) (Lit 1000)) (Lit 2)) (Lit 1)))
       (Mul (Mul (Div (Div (Mul (V (variable_output_vector 1800 ''grid_electric_power'')) (Lit 1800))
          (Lit 3600)) (Lit 1000)) (Lit 3)) (Lit 1)))
       (Mul (Mul (Div (Div (Mul (V (variable_output_vector 3600 ''grid_electric_power'')) (Lit 1800))
          (Lit 3600)) (Lit 1000)) (Lit 4)) (Lit 1))"
    and "investment_cost p = Lit 0"
    and "self_building p = example_building"
    and "self_args p = example_args ''operation''"
  using assms
  by (auto simp: constructor_defs example_building_def example_store_def example_args_def Let_def
      py_add_def py_mul_def py_div_def timedelta_seconds_def define_investment_cost_def)

section \<open>Variables without a value (C5)\<close>

text \<open>
  C5, as amended. Whenever both costs can be evaluated, \<^verbatim>\<open>solve\<close> returns, and every
  cell of the three tables (one per timestep and name of the building) holds exactly
  what the solver left in the corresponding variable: a variable without a value gives a
  missing cell, and the initial \<^verbatim>\<open>0.0\<close> of the table survives nowhere.
\<close>

theorem tables_hold_the_variables_values:
  assumes "value_of (var_values res) (operation_cost p) = Some x"
    and "value_of (var_values res) (investment_cost p) = Some y"
  shows "\<exists>out. snd (solve p res) = Inr out
     \<and> control_vector out =
         (\<lambda>(t, n). if t \<in> set (timesteps (self_building p)) \<and> n \<in> set (controls (self_building p))
                   then Some (var_values res (variable_control_vector t n)) else None)
     \<and> state_vector out =
         (\<lambda>(t, n). if t \<in> set (timesteps (self_building p)) \<and> n \<in> set (states (self_building p))
                   then Some (var_values res (variable_state_vector t n)) else None)
     \<and> output_vector out =
         (\<lambda>(t, n). if t \<in> set (timesteps (self_building p)) \<and> n \<in> set (outputs (self_building p))
                   then Some (var_values res (variable_output_vector t n)) else None)"
proof -
  from assms have "retrieve_cost (var_values res) (operation_cost p) = Inr x"
    and "retrieve_cost (var_values res) (investment_cost p) = Inr y"
    by (simp_all add: retrieve_cost_value_of)
  from solve_returns [OF this] obtain out where out: "snd (solve p res) = Inr out" by blast
  from solve_Inr [OF out] show ?thesis
    using out by (simp add: retrieve_results_eq)
qed


theorem tables_hold_the_variables_values_witness:
  "\<exists>st' p out.
     OptimizationProblem_init example_store example_building (example_args ''operation'')
       = (st', Inr p)
     \<and> value_of heat_unset (operation_cost p) = Some 0
     \<and> value_of heat_unset (investment_cost p) = Some 0
     \<and> snd (solve p \<lparr>termination_status = optimal, var_values = heat_unset\<rparr>) = Inr out
     \<and> control_vector out (0, ''heat_power'') = Some None
     \<and> control_vector out (1800, ''heat_power'') = Some (Some 0)"
proof -
  obtain st' p where
    init: "OptimizationProblem_init example_store example_building (example_args ''operation'')
       = (st', Inr p)"
    using example_init_operation by blast
  note p = example_operation_cost [OF init]
  let ?res = "\<lparr>termination_status = optimal, var_values = heat_unset\<rparr>"
  have oc: "value_of (var_values ?res) (operation_cost p) = Some 0"
    and ic: "value_of (var_values ?res) (investment_cost p) = Some 0"
    by (simp_all add: p heat_unset_def)
  from tables_hold_the_variables_values [OF oc ic] obtain out where
    "snd (solve p ?res) = Inr out"
    and "control_vector out =
         (\<lambda>(t, n). if t \<in> set (timesteps (self_building p)) \<and> n \<in> set (controls (self_building p))
                   then Some (var_values ?res (variable_control_vector t n)) else None)"
    by blast
  then have "snd (solve p ?res) = Inr out"
    and "control_vector out (0, ''heat_power'') = Some None"
    and "control_vector out (1800, ''heat_power'') = Some (Some 0)"
    by (simp_all add: p example_building_def heat_unset_def)
  with init oc ic show ?thesis by auto
qed

text \<open>
  The claim as stated fails: after an optimal termination that leaves the heater's
  variable at the first timestep without a value, the cell is missing, not zero.
\<close>

theorem missing_value_is_not_zero_counterexample:
  "\<exists>st' p out.
     OptimizationProblem_init example_store example_building (example_args ''operation'')
       = (st', Inr p)
     \<and> snd (solve p \<lparr>termination_status = optimal, var_values = heat_unset\<rparr>) = Inr out
     \<and> heat_unset (variable_control_vector 0 ''heat_power'') = None
     \<and> control_vector out (0, ''heat_power'') \<noteq> Some (Some 0)"
proof -
  obtain st' p where
    init: "OptimizationProblem_init example_store example_building (example_args ''operation'')
       = (st', Inr p)"
    using example_init_operation by blast
  note p = example_operation_cost [OF init]
  let ?res = "\<lparr>termination_status = optimal, var_values = heat_unset\<rparr>"
  have oc: "retrieve_cost (var_values ?res) (operation_cost p) = Inr 0"
    and ic: "retrieve_cost (var_values ?res) (investment_cost p) = Inr 0"
    by (simp_all add: p retrieve_cost_def pyo_value_def heat_unset_def)
  from solve_returns [OF oc ic] obtain out where out: "snd (solve p ?res) = Inr out" by blast
  from solve_Inr [OF out] have "control_vector out (0, ''heat_power'') \<noteq> Some (Some 0)"
    by (simp add: retrieve_results_eq p example_building_def heat_unset_def)
  moreover have "heat_unset (variable_control_vector 0 ''heat_power'') = None"
    by (simp add: heat_unset_def)
  ultimately show ?thesis using init out by blast
qed

section \<open>Literal costs\<close>

lemma operation_cost_step_literal:
  assumes "operation_cost_step pt prices factor d to cost = Inr cost'"
    and "cost = Lit 0 \<or> \<not> is_float cost"
  shows "cost' = Lit 0 \<or> \<not> is_float cost'"
  using assms
  by (cases cost)
    (auto simp: operation_cost_step_def py_add_def py_mul_def py_div_def
      split: prod.splits if_splits option.splits)

lemma foldM_operation_cost_literal:
  assumes "foldM (operation_cost_step pt prices factor d) xs cost = Inr cost'"
    and "cost = Lit 0 \<or> \<not> is_float cost"
  shows "cost' = Lit 0 \<or> \<not> is_float cost'"
  using assms
proof (induction xs arbitrary: cost)
  case Nil
  then show ?case by simp
next
  case (Cons x xs)
  from Cons.prems(1) obtain c where
    step: "operation_cost_step pt prices factor d x cost = Inr c"
    and rest: "foldM (operation_cost_step pt prices factor d) xs c = Inr cost'"
    by (auto split: sum.splits)
  from operation_cost_step_literal [OF step Cons.prems(2)] Cons.IH [OF rest]
  show ?case by blast
qed

lemma define_operation_cost_literal:
  assumes "define_operation_cost b pt prices factor d = Inr cost" and "is_float cost"
  shows "cost = Lit 0"
  using foldM_operation_cost_literal [OF assms(1) [unfolded define_operation_cost_def]] assms(2)
  by simp

lemma define_investment_cost_literal:
  assumes "is_float (define_investment_cost b pt)"
  shows "define_investment_cost b pt = Lit 0"
  using assms
  by (auto simp: define_investment_cost_def py_add_def py_sub_def py_mul_def py_div_def
      split: if_splits)

lemma retrieve_cost_literal: "retrieve_cost vals (Lit x) = Inr x"
  by (simp add: retrieve_cost_def)

section \<open>Storage size and literal costs returned by \<^verbatim>\<open>solve\<close> (C6)\<close>

text \<open>
  C6. For a formulated model on which \<^verbatim>\<open>solve\<close> returns: the storage size returned is
  the value of the storage-size variable under \<^verbatim>\<open>storage_planning\<close>, exactly \<open>0.0\<close>
  under \<^verbatim>\<open>storage_planning_baseline\<close>, and \<^verbatim>\<open>None\<close> under every other variant. A cost
  that is still a float after the constructor is the literal \<open>0.0\<close>, and \<^verbatim>\<open>solve\<close>
  returns that literal whatever the variables' values are; when both costs are floats
  \<^verbatim>\<open>solve\<close> returns even if no variable has a value.
\<close>

theorem storage_size_and_literal_costs:
  assumes "OptimizationProblem_init st b args = (st', Inr p)"
    and "snd (solve p res) = Inr out"
  shows "storage_size out =
       (if problem_type args = ''storage_planning'' then var_values res variable_storage_size
        else if problem_type args = ''storage_planning_baseline'' then Some 0
        else None)
     \<and> (is_float (operation_cost p) \<longrightarrow>
           operation_cost p = Lit 0 \<and> operation_cost_value out = 0)
     \<and> (is_float (investment_cost p) \<longrightarrow>
           investment_cost p = Lit 0 \<and> investment_cost_value out = 0)
     \<and> (is_float (operation_cost p) \<and> is_float (investment_cost p) \<longrightarrow>
           (\<forall>res'. \<exists>out'. snd (solve p res') = Inr out'))"
proof -
  from init_Inr [OF assms(1)] obtain d factor prices where
    oc: "define_operation_cost b (problem_type args) prices factor d = Inr (operation_cost p)"
    and ic: "investment_cost p = define_investment_cost b (problem_type args)"
    and args: "self_args p = args"
    by blast
  note s = solve_Inr [OF assms(2)]
  have size: "storage_size out =
       (if problem_type args = ''storage_planning'' then var_values res variable_storage_size
        else if problem_type args = ''storage_planning_baseline'' then Some 0
        else None)"
    using s by (simp add: args retrieve_storage_size_def)
  have opex: "operation_cost p = Lit 0 \<and> operation_cost_value out = 0"
    if "is_float (operation_cost p)"
  proof -
    from define_operation_cost_literal [OF oc that] have l: "operation_cost p = Lit 0" .
    with s show ?thesis by (simp add: retrieve_cost_literal)
  qed
  have capex: "investment_cost p = Lit 0 \<and> investment_cost_value out = 0"
    if "is_float (investment_cost p)"
  proof -
    from define_investment_cost_literal that ic have l: "investment_cost p = Lit 0" by simp
    with s show ?thesis by (simp add: retrieve_cost_literal)
  qed
  have returns: "\<exists>out'. snd (solve p res') = Inr out'"
    if "is_float (operation_cost p)" and "is_float (investment_cost p)" for res'
  proof -
    from opex [OF that(1)] capex [OF that(2)]
    have "retrieve_cost (var_values res') (operation_cost p) = Inr 0"
      and "retrieve_cost (var_values res') (investment_cost p) = Inr 0"
      by (simp_all add: retrieve_cost_literal)
    then show ?thesis by (rule solve_returns)
  qed
  from size opex capex returns show ?thesis by blast
qed

lemma example_thermal_baseline:
  "\<exists>st' p. OptimizationProblem_init example_store example_building_thermal
       (example_args ''storage_planning_baseline'') = (st', Inr p)
     \<and> operation_cost p = Lit 0 \<and> investment_cost p = Lit 0"
  by (simp add: constructor_defs example_building_thermal_def example_building_def
      example_store_def example_args_def Let_def define_investment_cost_def)

theorem storage_size_and_literal_costs_witness:
  "\<exists>st' p out.
     OptimizationProblem_init example_store example_building_thermal
       (example_args ''storage_planning_baseline'') = (st', Inr p)
     \<and> snd (solve p \<lparr>termination_status = optimal, var_values = (\<lambda>v. None)\<rparr>) = Inr out
     \<and> is_float (operation_cost p) \<and> is_float (investment_cost p)
     \<and> storage_size out = Some 0
     \<and> operation_cost_value out = 0
     \<and> investment_cost_value out = 0"
proof -
  obtain st' p where
    init: "OptimizationProblem_init example_store example_building_thermal
       (example_args ''storage_planning_baseline'') = (st', Inr p)"
    and oc: "operation_cost p = Lit 0" and ic: "investment_cost p = Lit 0"
    using example_thermal_baseline by blast
  let ?res = "\<lparr>termination_status = optimal, var_values = (\<lambda>v. None)\<rparr>"
  have "retrieve_cost (var_values ?res) (operation_cost p) = Inr 0"
    and "retrieve_cost (var_values ?res) (investment_cost p) = Inr 0"
    by (simp_all add: oc ic retrieve_cost_literal)
  from solve_returns [OF this] obtain out where out: "snd (solve p ?res) = Inr out" by blast
  have fl: "is_float (operation_cost p)" "is_float (investment_cost p)"
    by (simp_all add: oc ic)
  from storage_size_and_literal_costs [OF init out] fl
  have "storage_size out = Some 0" and "operation_cost_value out = 0"
    and "investment_cost_value out = 0"
    by (simp_all add: example_args_def)
  with init out fl show ?thesis by blast
qed

section \<open>Domains of the variables\<close>

lemma control_variable_declared:
  assumes "timestep \<in> set (timesteps b)" and "control \<in> set (controls b)"
  shows "(variable_control_vector timestep control, PyoNonNegativeReals)
     \<in> set (define_variables b pt)"
  using assms by (auto simp: define_variables_def declare_vars_def)

lemma control_variable_domain:
  assumes "(variable_control_vector timestep control, d) \<in> set (define_variables b pt)"
  shows "d = PyoNonNegativeReals"
  using assms by (auto simp: define_variables_def declare_vars_def split: if_splits)

lemma feasible_in_domain:
  assumes "feasible p a" and "(v, d) \<in> set (variables p)"
  shows "in_domain d (a v)"
  using assms by (auto simp: feasible_def list_all_iff)

lemma feasible_holds:
  assumes "feasible p a" and "c \<in> set (constraints p)"
  shows "holds a c"
  using assms by (auto simp: feasible_def list_all_iff)

section \<open>Controls are non-negative (C10)\<close>

text \<open>
  C10. In a formulated model of any variant, the control variable of every timestep and
  control of the building is declared, and only declared, over the non-negative reals.
  So a feasible assignment gives it a non-negative value, and when the solver leaves a
  feasible assignment in the variables, \<^verbatim>\<open>solve\<close> returns a control table whose entry
  for that timestep and control is this non-negative value.
\<close>

theorem control_variables_are_non_negative:
  assumes "OptimizationProblem_init st b args = (st', Inr p)"
    and "timestep \<in> set (timesteps b)" and "control \<in> set (controls b)"
  shows "(variable_control_vector timestep control, PyoNonNegativeReals) \<in> set (variables p)
     \<and> (\<forall>d. (variable_control_vector timestep control, d) \<in> set (variables p)
            \<longrightarrow> d = PyoNonNegativeReals)
     \<and> (\<forall>a. feasible p a \<longrightarrow>
           0 \<le> a (variable_control_vector timestep control)
           \<and> (\<forall>res. var_values res = (\<lambda>v. Some (a v)) \<longrightarrow>
                 (\<exists>out. snd (solve p res) = Inr out
                    \<and> control_vector out (timestep, control)
                        = Some (Some (a (variable_control_vector timestep control))))))"
proof -
  from init_Inr [OF assms(1)] have
    vars: "variables p = define_variables b (problem_type args)"
    and b: "self_building p = b"
    by auto
  have decl: "(variable_control_vector timestep control, PyoNonNegativeReals) \<in> set (variables p)"
    using control_variable_declared [OF assms(2,3)] vars by simp
  have only: "d = PyoNonNegativeReals"
    if "(variable_control_vector timestep control, d) \<in> set (variables p)" for d
    using that control_variable_domain vars by simp
  have nonneg: "0 \<le> a (variable_control_vector timestep control)" if "feasible p a" for a
    using feasible_in_domain [OF that decl] by simp
  have table: "\<exists>out. snd (solve p res) = Inr out
      \<and> control_vector out (timestep, control)
          = Some (Some (a (variable_control_vector timestep control)))"
    if "var_values res = (\<lambda>v. Some (a v))" for res a
  proof -
    have "retrieve_cost (var_values res) (operation_cost p) = Inr (eval a (operation_cost p))"
      and "retrieve_cost (var_values res) (investment_cost p) = Inr (eval a (investment_cost p))"
      by (simp_all add: that retrieve_cost_total)
    from solve_returns [OF this] obtain out where out: "snd (solve p res) = Inr out" by blast
    from solve_Inr [OF out] assms(2,3) have "control_vector out (timestep, control)
          = Some (Some (a (variable_control_vector timestep control)))"
      by (simp add: retrieve_results_eq b that)
    with out show ?thesis by blast
  qed
  from decl only nonneg table show ?thesis by blast
qed

lemma example_operation_feasible:
  assumes "OptimizationProblem_init example_store example_building (example_args ''operation'')
     = (st', Inr p)"
  shows "feasible p example_assignment"
  using assms
  by (auto simp: constructor_defs example_building_def example_store_def example_args_def Let_def
      feasible_def define_variables_def declare_vars_def example_assignment_def
      output_equation_constraints_def output_equation_def output_bound_constraints_def
      minimum_bound_def maximum_bound_def state_equation_rhs_def)

theorem control_variables_are_non_negative_witness:
  "\<exists>st' p out.
     OptimizationProblem_init example_store example_building (example_args ''operation'')
       = (st', Inr p)
     \<and> 0 \<in> set (timesteps example_building)
     \<and> ''heat_power'' \<in> set (controls example_building)
     \<and> feasible p example_assignment
     \<and> (variable_control_vector 0 ''heat_power'', PyoNonNegativeReals) \<in> set (variables p)
     \<and> snd (solve p \<lparr>termination_status = optimal,
                      var_values = (\<lambda>v. Some (example_assignment v))\<rparr>) = Inr out
     \<and> control_vector out (0, ''heat_power'') = Some (Some 2000)"
proof -
  obtain st' p where
    init: "OptimizationProblem_init example_store example_building (example_args ''operation'')
       = (st', Inr p)"
    using example_init_operation by blast
  have t: "0 \<in> set (timesteps example_building)"
    and c: "''heat_power'' \<in> set (controls example_building)"
    by (simp_all add: example_building_def)
  have f: "feasible p example_assignment" using init by (rule example_operation_feasible)
  let ?res = "\<lparr>termination_status = optimal, var_values = (\<lambda>v. Some (example_assignment v))\<rparr>"
  note main = control_variables_are_non_negative [OF init t c]
  from main have decl:
    "(variable_control_vector 0 ''heat_power'', PyoNonNegativeReals) \<in> set (variables p)"
    by blast
  from main f have "\<forall>res. var_values res = (\<lambda>v. Some (example_assignment v)) \<longrightarrow>
       (\<exists>out. snd (solve p res) = Inr out
          \<and> control_vector out (0, ''heat_power'')
              = Some (Some (example_assignment (variable_control_vector 0 ''heat_power''))))"
    by blast
  then have "\<exists>out. snd (solve p ?res) = Inr out
          \<and> control_vector out (0, ''heat_power'')
              = Some (Some (example_assignment (variable_control_vector 0 ''heat_power'')))"
    by simp
  then obtain out where "snd (solve p ?res) = Inr out"
    and "control_vector out (0, ''heat_power'') = Some (Some 2000)"
    by (auto simp: example_assignment_def)
  with init t c f decl show ?thesis by blast
qed

section \<open>The store of price tables\<close>

lemma init_store: "\<exists>prices. fst (OptimizationProblem_init st b args) = st @ [prices]"
  by (auto simp: OptimizationProblem_init_def Let_def split: sum.splits prod.splits)

lemma modify_price_Inr:
  assumes "modify_price args prices = Inr prices'"
  shows "if problem_type args = ''price_sensitivity''
     then \<exists>k factor price. price_sensitivity_timestep args = Some k
        \<and> price_sensitivity_factor args = Some factor
        \<and> prices k = Some price
        \<and> prices' = prices(k \<mapsto> price * factor)
     else prices' = prices"
  using assms by (auto simp: modify_price_def split: if_splits option.splits)

lemma example_init_price_sensitivity:
  "\<exists>st' p. OptimizationProblem_init example_store example_building example_price_sensitivity
     = (st', Inr p)"
  by (simp add: constructor_defs example_building_def example_store_def example_args_def Let_def
      example_price_sensitivity_def)

section \<open>The price perturbation stays in the copy (C9)\<close>

text \<open>
  C9. The constructor leaves every price table that existed before the call as it was,
  the caller's building's table among them, whether it returns or raises; the only
  store change is one new table, the copy. When it returns, the object still refers to
  the caller's building and holds the address of the copy. Under \<^verbatim>\<open>price_sensitivity\<close>
  the copy is the building's table with the price at the one target timestep multiplied by
  the factor and every other timestep's price unchanged; under the other variants it is
  equal to the building's table. The operation cost is accumulated from the copy as it
  is after the perturbation.
\<close>

theorem price_perturbation_confined_to_copy:
  assumes "OptimizationProblem_init st b args = (st', r)"
    and "electricity_price_timeseries b < length st"
  shows "st' ! electricity_price_timeseries b = st ! electricity_price_timeseries b
     \<and> take (length st) st' = st \<and> length st' = Suc (length st)
     \<and> (\<forall>p. r = Inr p \<longrightarrow>
          self_building p = b
          \<and> self_electricity_price_timeseries p = length st
          \<and> (if problem_type args = ''price_sensitivity''
              then \<exists>k factor price. price_sensitivity_timestep args = Some k
                 \<and> price_sensitivity_factor args = Some factor
                 \<and> (st ! electricity_price_timeseries b) k = Some price
                 \<and> (st' ! length st) k = Some (price * factor)
                 \<and> (\<forall>k'. k' \<noteq> k \<longrightarrow>
                       (st' ! length st) k' = (st ! electricity_price_timeseries b) k')
              else st' ! length st = st ! electricity_price_timeseries b)
          \<and> (\<exists>timestep_delta.
                define_operation_cost b (problem_type args) (st' ! length st)
                  (operation_cost_factor p) timestep_delta = Inr (operation_cost p)))"
proof -
  from init_store [of st b args] assms(1) obtain prices where st': "st' = st @ [prices]"
    by auto
  from st' assms(2) have frame:
    "st' ! electricity_price_timeseries b = st ! electricity_price_timeseries b"
    "take (length st) st' = st" "length st' = Suc (length st)"
    by (simp_all add: nth_append)
  have obj: "self_building p = b
          \<and> self_electricity_price_timeseries p = length st
          \<and> (if problem_type args = ''price_sensitivity''
              then \<exists>k factor price. price_sensitivity_timestep args = Some k
                 \<and> price_sensitivity_factor args = Some factor
                 \<and> (st ! electricity_price_timeseries b) k = Some price
                 \<and> (st' ! length st) k = Some (price * factor)
                 \<and> (\<forall>k'. k' \<noteq> k \<longrightarrow>
                       (st' ! length st) k' = (st ! electricity_price_timeseries b) k')
              else st' ! length st = st ! electricity_price_timeseries b)
          \<and> (\<exists>timestep_delta.
                define_operation_cost b (problem_type args) (st' ! length st)
                  (operation_cost_factor p) timestep_delta = Inr (operation_cost p))"
    if "r = Inr p" for p
  proof -
    from init_Inr [OF assms(1) [unfolded that]] obtain d factor prices' where
      mp: "modify_price args (st ! electricity_price_timeseries b) = Inr prices'"
      and oc: "define_operation_cost b (problem_type args) prices' factor d
         = Inr (operation_cost p)"
      and s: "st' = st @ [prices']"
      and rest: "self_building p = b" "self_electricity_price_timeseries p = length st"
        "operation_cost_factor p = factor"
      by blast
    from s have copy: "st' ! length st = prices'" by simp
    from modify_price_Inr [OF mp] have
      "if problem_type args = ''price_sensitivity''
       then \<exists>k factor price. price_sensitivity_timestep args = Some k
          \<and> price_sensitivity_factor args = Some factor
          \<and> (st ! electricity_price_timeseries b) k = Some price
          \<and> (st' ! length st) k = Some (price * factor)
          \<and> (\<forall>k'. k' \<noteq> k \<longrightarrow>
                (st' ! length st) k' = (st ! electricity_price_timeseries b) k')
       else st' ! length st = st ! electricity_price_timeseries b"
      unfolding copy by (auto split: if_splits)
    moreover from oc rest(3) copy have "\<exists>timestep_delta.
        define_operation_cost b (problem_type args) (st' ! length st)
          (operation_cost_factor p) timestep_delta = Inr (operation_cost p)"
      by auto
    ultimately show ?thesis using rest(1,2) by blast
  qed
  from frame obj show ?thesis by blast
qed

theorem price_perturbation_confined_to_copy_witness:
  "\<exists>st' p.
     OptimizationProblem_init example_store example_building example_price_sensitivity
       = (st', Inr p)
     \<and> electricity_price_timeseries example_building < length example_store
     \<and> st' ! 0 = example_store ! 0
     \<and> (example_store ! 0) 1800 = Some 3
     \<and> (st' ! 1) 1800 = Some 6
     \<and> (st' ! 1) 0 = Some 2
     \<and> (st' ! 1) 3600 = Some 4
     \<and> self_building p = example_building"
proof -
  obtain st' p where
    init: "OptimizationProblem_init example_store example_building example_price_sensitivity
       = (st', Inr p)"
    using example_init_price_sensitivity by blast
  have ref: "electricity_price_timeseries example_building < length example_store"
    by (simp add: example_building_def example_store_def)
  have facts: "electricity_price_timeseries example_building = 0"
    "length example_store = 1"
    "problem_type example_price_sensitivity = ''price_sensitivity''"
    "price_sensitivity_timestep example_price_sensitivity = Some 1800"
    "price_sensitivity_factor example_price_sensitivity = Some 2"
    "(example_store ! 0) 1800 = Some 3" "(example_store ! 0) 0 = Some 2"
    "(example_store ! 0) 3600 = Some 4"
    by (simp_all add: example_building_def example_store_def example_price_sensitivity_def
        example_args_def)
  from price_perturbation_confined_to_copy [OF init ref]
  have "st' ! 0 = example_store ! 0" and "(st' ! 1) 1800 = Some 6"
    and "(st' ! 1) 0 = Some 2" and "(st' ! 1) 3600 = Some 4"
    and "self_building p = example_building"
    by (auto simp: facts)
  with init ref facts(6) show ?thesis by blast
qed

section \<open>Missing variant parameters\<close>





section \<open>Construction with missing variant parameters (C3)\<close>




section \<open>The value of the operation cost\<close>









section \<open>Operation cost (C4)\<close>




section \<open>Where the storage existence variable occurs\<close>

lemma mentions_py_add [simp]: "mentions v (py_add x y) \<longleftrightarrow> mentions v x \<or> mentions v y"
  by (cases x; cases y) (simp_all add: py_add_def)

lemma mentions_py_sub [simp]: "mentions v (py_sub x y) \<longleftrightarrow> mentions v x \<or> mentions v y"
  by (cases x; cases y) (simp_all add: py_sub_def)

lemma mentions_py_mul [simp]: "mentions v (py_mul x y) \<longleftrightarrow> mentions v x \<or> mentions v y"
  by (cases x; cases y) (simp_all add: py_mul_def)

lemma mentions_py_div [simp]: "mentions v (py_div x y) \<longleftrightarrow> mentions v x \<or> mentions v y"
  by (cases x; cases y) (simp_all add: py_div_def)

lemma mentions_foldl_py_add:
  "mentions v (foldl py_add e es) \<longleftrightarrow> mentions v e \<or> (\<exists>x\<in>set es. mentions v x)"
  by (induction es arbitrary: e) auto

lemma mentions_py_sum [simp]: "mentions v (py_sum es) \<longleftrightarrow> (\<exists>x\<in>set es. mentions v x)"
  by (simp add: py_sum_def mentions_foldl_py_add)

lemma eval_unmentioned: "\<not> mentions v e \<Longrightarrow> eval (a(v := x)) e = eval a e"
  by (induction e) auto

lemma holds_unmentioned: "\<not> constraint_mentions v c \<Longrightarrow> holds (a(v := x)) c = holds a c"
  by (cases c) (simp_all add: eval_unmentioned)

lemma initial_no_exists:
  assumes "initial_state_constraints b = Inr cs" and "c \<in> set cs"
  shows "\<not> constraint_mentions variable_storage_exists c"
proof (cases "timesteps b")
  case Nil
  with mapM_set [OF assms [unfolded initial_state_constraints_def]] show ?thesis by auto
next
  case (Cons t0 r)
  with mapM_set [OF assms [unfolded initial_state_constraints_def]] show ?thesis by auto
qed

lemma dynamics_no_exists:
  assumes "state_equation_constraints b d = Inr cs" and "c \<in> set cs"
  shows "\<not> constraint_mentions variable_storage_exists c"
  using assms(2) unfolding state_equation_constraints_Inr [OF assms(1)]
  by (auto simp: state_equation_rhs_def)

lemma output_equation_no_exists:
  "c \<in> set (output_equation_constraints b) \<Longrightarrow> \<not> constraint_mentions variable_storage_exists c"
  by (auto simp: output_equation_constraints_def output_equation_def)

lemma minimum_bound_no_exists:
  "list_all (\<lambda>c. \<not> constraint_mentions variable_storage_exists c)
     (minimum_bound b pt n t)"
  by (simp add: minimum_bound_def)

lemma maximum_bound_no_exists:
  "list_all (\<lambda>c. \<not> constraint_mentions variable_storage_exists c)
     (maximum_bound b pt n t)"
  by (simp add: maximum_bound_def storage_size_0_def)

lemma output_bound_no_exists:
  assumes "c \<in> set (output_bound_constraints b pt)"
  shows "\<not> constraint_mentions variable_storage_exists c"
proof -
  from assms obtain n t where
    "c \<in> set (minimum_bound b pt n t) \<or> c \<in> set (maximum_bound b pt n t)"
    unfolding set_output_bound_constraints by blast
  with minimum_bound_no_exists [of b pt n t] maximum_bound_no_exists [of b pt n t]
  show ?thesis by (auto simp: list_all_iff)
qed

lemma storage_planning_exists:
  assumes "c \<in> set (storage_planning_constraints b)"
    and "constraint_mentions variable_storage_exists c"
  shows "c = Le (V variable_storage_size) (Mul (V variable_storage_exists) (Lit LARGE_CONSTANT))"
  using assms by (auto simp: storage_planning_constraints_def py_mul_def split: if_splits)

lemma storage_planning_has_existence:
  assumes "timesteps b \<noteq> []"
  shows "Le (V variable_storage_size) (Mul (V variable_storage_exists) (Lit LARGE_CONSTANT))
     \<in> set (storage_planning_constraints b)"
  using assms by (cases "timesteps b") (auto simp: storage_planning_constraints_def py_mul_def)

lemma operation_cost_step_no_exists:
  assumes "operation_cost_step pt prices factor d to cost = Inr cost'"
    and "\<not> mentions variable_storage_exists cost"
  shows "\<not> mentions variable_storage_exists cost'"
  using assms
  by (auto simp: operation_cost_step_def split: prod.splits if_splits option.splits)

lemma foldM_operation_cost_no_exists:
  assumes "foldM (operation_cost_step pt prices factor d) xs cost = Inr cost'"
    and "\<not> mentions variable_storage_exists cost"
  shows "\<not> mentions variable_storage_exists cost'"
  using assms
proof (induction xs arbitrary: cost)
  case Nil
  then show ?case by simp
next
  case (Cons x xs)
  from Cons.prems(1) obtain c where
    step: "operation_cost_step pt prices factor d x cost = Inr c"
    and rest: "foldM (operation_cost_step pt prices factor d) xs c = Inr cost'"
    by (auto split: sum.splits)
  from Cons.IH [OF rest operation_cost_step_no_exists [OF step Cons.prems(2)]]
  show ?case .
qed

lemma define_operation_cost_no_exists:
  assumes "define_operation_cost b pt prices factor d = Inr cost"
  shows "\<not> mentions variable_storage_exists cost"
  using foldM_operation_cost_no_exists [OF assms [unfolded define_operation_cost_def]] by simp

lemma storage_planning_model:
  assumes "OptimizationProblem_init st b args = (st', Inr p)"
    and "problem_type args = ''storage_planning''"
  shows "Le (V variable_storage_size) (Mul (V variable_storage_exists) (Lit LARGE_CONSTANT))
       \<in> set (constraints p)"
    and "\<And>c. c \<in> set (constraints p) \<Longrightarrow> constraint_mentions variable_storage_exists c \<Longrightarrow>
       c = Le (V variable_storage_size) (Mul (V variable_storage_exists) (Lit LARGE_CONSTANT))"
    and "\<not> mentions variable_storage_exists (operation_cost p)"
    and "(variable_storage_size, PyoNonNegativeReals) \<in> set (variables p)"
    and "(variable_storage_peak_power, PyoNonNegativeReals) \<in> set (variables p)"
    and "(variable_storage_exists, PyoBinary) \<in> set (variables p)"
proof -
  from init_Inr [OF assms(1)] obtain d factor prices where
    dc: "define_constraints b args = Inr (d, constraints p)"
    and oc: "define_operation_cost b (problem_type args) prices factor d = Inr (operation_cost p)"
    and vars: "variables p = define_variables b (problem_type args)"
    by blast
  from define_constraints_Inr [OF dc] obtain initial dynamics auxiliary where
    ini: "initial_state_constraints b = Inr initial"
    and delta: "timestep_delta_of b = Inr d"
    and dyn: "state_equation_constraints b d = Inr dynamics"
    and aux: "auxiliary_constraints b args = Inr auxiliary"
    and cs: "constraints p = initial @ dynamics @ output_equation_constraints b
            @ output_bound_constraints b (problem_type args) @ auxiliary"
    by blast
  from aux assms(2) have auxiliary: "auxiliary = storage_planning_constraints b"
    by (simp add: auxiliary_constraints_def)
  from timestep_delta_of_Inr [OF delta] have "timesteps b \<noteq> []" by auto
  from storage_planning_has_existence [OF this]
  show "Le (V variable_storage_size) (Mul (V variable_storage_exists) (Lit LARGE_CONSTANT))
       \<in> set (constraints p)"
    by (simp add: cs auxiliary)
  show "c = Le (V variable_storage_size) (Mul (V variable_storage_exists) (Lit LARGE_CONSTANT))"
    if "c \<in> set (constraints p)" and "constraint_mentions variable_storage_exists c" for c
    using that initial_no_exists [OF ini] dynamics_no_exists [OF dyn]
      output_equation_no_exists [of c b] output_bound_no_exists [of c b "problem_type args"]
      storage_planning_exists [of c b]
    by (auto simp: cs auxiliary)
  from define_operation_cost_no_exists [OF oc]
  show "\<not> mentions variable_storage_exists (operation_cost p)" .
  show "(variable_storage_size, PyoNonNegativeReals) \<in> set (variables p)"
    and "(variable_storage_peak_power, PyoNonNegativeReals) \<in> set (variables p)"
    and "(variable_storage_exists, PyoBinary) \<in> set (variables p)"
    by (simp_all add: vars assms(2) define_variables_def)
qed

lemma in_domain_zero: "in_domain d 0"
  by (cases d) simp_all

lemma feasible_without_storage:
  assumes "OptimizationProblem_init st b args = (st', Inr p)"
    and "problem_type args = ''storage_planning''"
    and "feasible p a" and "a variable_storage_size = 0"
  shows "feasible p (a(variable_storage_exists := 0))"
proof -
  note m = storage_planning_model [OF assms(1,2)]
  have dom: "in_domain d ((a(variable_storage_exists := 0)) v)" if "(v, d) \<in> set (variables p)" for v d
    using feasible_in_domain [OF assms(3) that] by (simp add: in_domain_zero)
  have con: "holds (a(variable_storage_exists := 0)) c" if c: "c \<in> set (constraints p)" for c
  proof (cases "constraint_mentions variable_storage_exists c")
    case True
    from m(2) [OF c True] assms(4) show ?thesis by simp
  next
    case False
    from holds_unmentioned [OF False] feasible_holds [OF assms(3) c] show ?thesis by simp
  qed
  from dom con show ?thesis by (auto simp: feasible_def list_all_iff)
qed

lemma investment_cost_without_storage:
  assumes "str_in ''sensible'' (building_storage_type b) \<or> str_in ''battery'' (building_storage_type b)"
  shows "eval (a(variable_storage_exists := 0)) (define_investment_cost b ''storage_planning'')
     = eval a (define_investment_cost b ''storage_planning'')
       - a variable_storage_exists * storage_planning_fixed_installation_cost b"
  using assms by (auto simp: define_investment_cost_def)

section \<open>Storage size and storage existence (C7)\<close>

text \<open>
  C7, as amended. In a formulated \<^verbatim>\<open>storage_planning\<close> model every feasible assignment
  satisfies \<open>storage_size \<le> storage_exists \<times> LARGE_CONSTANT\<close>, has a non-negative storage
  size and storage peak power, and has \<open>storage_exists\<close> equal to 0 or 1. When the
  storage size of an optimal assignment is 0, its \<open>storage_exists\<close> is 0 provided that the
  fixed installation cost is positive and the storage type is sensible or battery, so
  that \<open>storage_exists\<close> has a cost in the objective.
\<close>

theorem storage_exists_bounds_storage_size:
  assumes "OptimizationProblem_init st b args = (st', Inr p)"
    and "problem_type args = ''storage_planning''"
  shows "(\<forall>a. feasible p a \<longrightarrow>
            a variable_storage_size \<le> a variable_storage_exists * LARGE_CONSTANT
            \<and> 0 \<le> a variable_storage_size
            \<and> 0 \<le> a variable_storage_peak_power
            \<and> (a variable_storage_exists = 0 \<or> a variable_storage_exists = 1))
     \<and> (\<forall>a. is_optimal p a \<and> a variable_storage_size = 0
            \<and> 0 < storage_planning_fixed_installation_cost b
            \<and> (str_in ''sensible'' (building_storage_type b)
                \<or> str_in ''battery'' (building_storage_type b))
            \<longrightarrow> a variable_storage_exists = 0)"
proof -
  note m = storage_planning_model [OF assms]
  have bounds: "a variable_storage_size \<le> a variable_storage_exists * LARGE_CONSTANT
            \<and> 0 \<le> a variable_storage_size
            \<and> 0 \<le> a variable_storage_peak_power
            \<and> (a variable_storage_exists = 0 \<or> a variable_storage_exists = 1)"
    if f: "feasible p a" for a
    using feasible_holds [OF f m(1)] feasible_in_domain [OF f m(4)]
      feasible_in_domain [OF f m(5)] feasible_in_domain [OF f m(6)]
    by simp
  have zero: "a variable_storage_exists = 0"
    if opt: "is_optimal p a" and size: "a variable_storage_size = 0"
      and cost: "0 < storage_planning_fixed_installation_cost b"
      and type: "str_in ''sensible'' (building_storage_type b)
                \<or> str_in ''battery'' (building_storage_type b)"
    for a
  proof -
    from opt have f: "feasible p a"
      and least: "\<And>a'. feasible p a' \<Longrightarrow> eval a (objective p) \<le> eval a' (objective p)"
      by (simp_all add: is_optimal_def)
    let ?a = "a(variable_storage_exists := 0)"
    from feasible_without_storage [OF assms f size] have "feasible p ?a" .
    from least [OF this] have le: "eval a (objective p) \<le> eval ?a (objective p)" .
    from init_Inr [OF assms(1)] assms(2) have
      obj: "objective p = py_add (operation_cost p) (investment_cost p)"
      and inv: "investment_cost p = define_investment_cost b ''storage_planning''"
      by auto
    have "eval ?a (objective p) = eval a (objective p)
        - a variable_storage_exists * storage_planning_fixed_installation_cost b"
      by (simp add: obj inv eval_unmentioned [OF m(3)] investment_cost_without_storage [OF type])
    with le have "a variable_storage_exists * storage_planning_fixed_installation_cost b \<le> 0"
      by simp
    with cost have "a variable_storage_exists \<le> 0"
      by (simp add: mult_le_0_iff)
    with bounds [OF f] show ?thesis by auto
  qed
  from bounds zero show ?thesis by blast
qed

section \<open>Storage planning on the small building\<close>

lemmas example_defs =
  example_building_def example_building_fixed_cost_def example_store_def example_args_def

lemma example_storage_planning_init:
  "\<exists>st' p. OptimizationProblem_init example_store example_building
     (example_args ''storage_planning'') = (st', Inr p)"
  "\<exists>st' p. OptimizationProblem_init example_store example_building_fixed_cost
     (example_args ''storage_planning'') = (st', Inr p)"
  by (simp_all add: constructor_defs example_defs Let_def)

lemma example_storage_planning_idle_feasible:
  assumes "OptimizationProblem_init example_store example_building
       (example_args ''storage_planning'') = (st', Inr p)
     \<or> OptimizationProblem_init example_store example_building_fixed_cost
       (example_args ''storage_planning'') = (st', Inr p)"
    and "e = 0 \<or> e = 1"
  shows "feasible p (example_idle e)"
  using assms
  by (auto simp: constructor_defs example_defs Let_def
      feasible_def define_variables_def declare_vars_def example_idle_def
      output_equation_constraints_def output_equation_def output_bound_constraints_def
      minimum_bound_def maximum_bound_def state_equation_rhs_def
      storage_planning_constraints_def LARGE_CONSTANT_def)

lemma example_storage_planning_objective:
  assumes "OptimizationProblem_init example_store example_building
       (example_args ''storage_planning'') = (st', Inr p)"
  shows "eval a (objective p) =
     (a (variable_output_vector 0 ''grid_electric_power'') * 1800 / 3600 / 1000 * 2
        * operation_cost_factor p
      + a (variable_output_vector 1800 ''grid_electric_power'') * 1800 / 3600 / 1000 * 3
        * operation_cost_factor p
      + a (variable_output_vector 3600 ''grid_electric_power'') * 1800 / 3600 / 1000 * 4
        * operation_cost_factor p)
     + a variable_storage_size * 100"
    and "0 \<le> operation_cost_factor p"
    and "Ge (V (variable_output_vector 0 ''grid_electric_power'')) (Lit 0) \<in> set (constraints p)"
    and "Ge (V (variable_output_vector 1800 ''grid_electric_power'')) (Lit 0) \<in> set (constraints p)"
    and "Ge (V (variable_output_vector 3600 ''grid_electric_power'')) (Lit 0) \<in> set (constraints p)"
  using assms
  by (auto simp: constructor_defs example_defs Let_def timedelta_seconds_def
      define_investment_cost_def ONE_YEAR_def
      output_bound_constraints_def minimum_bound_def)

lemma example_fixed_cost_objective:
  assumes "OptimizationProblem_init example_store example_building_fixed_cost
       (example_args ''storage_planning'') = (st', Inr p)"
  shows "eval a (objective p) =
     (a (variable_output_vector 0 ''grid_electric_power'') * 1800 / 3600 / 1000 * 2
        * operation_cost_factor p
      + a (variable_output_vector 1800 ''grid_electric_power'') * 1800 / 3600 / 1000 * 3
        * operation_cost_factor p
      + a (variable_output_vector 3600 ''grid_electric_power'') * 1800 / 3600 / 1000 * 4
        * operation_cost_factor p)
     + (a variable_storage_size * 100 + a variable_storage_exists * 50)"
    and "0 \<le> operation_cost_factor p"
    and "Ge (V (variable_output_vector 0 ''grid_electric_power'')) (Lit 0) \<in> set (constraints p)"
    and "Ge (V (variable_output_vector 1800 ''grid_electric_power'')) (Lit 0) \<in> set (constraints p)"
    and "Ge (V (variable_output_vector 3600 ''grid_electric_power'')) (Lit 0) \<in> set (constraints p)"
  using assms
  by (auto simp: constructor_defs example_defs Let_def timedelta_seconds_def
      define_investment_cost_def ONE_YEAR_def
      output_bound_constraints_def minimum_bound_def)

lemma energy_cost_nonneg:
  fixes x f k :: real
  assumes "0 \<le> x" and "0 \<le> f" and "0 \<le> k"
  shows "0 \<le> x * 1800 / 3600 / 1000 * k * f"
  using assms by (intro mult_nonneg_nonneg divide_nonneg_nonneg) simp_all

lemma example_storage_planning_optimal:
  assumes "OptimizationProblem_init example_store example_building
       (example_args ''storage_planning'') = (st', Inr p)"
    and "e = 0 \<or> e = 1"
  shows "is_optimal p (example_idle e)"
proof -
  note o = example_storage_planning_objective [OF assms(1)]
  have pt: "problem_type (example_args ''storage_planning'') = ''storage_planning''"
    by (simp add: example_args_def)
  note m = storage_planning_model [OF assms(1) pt]
  have f: "feasible p (example_idle e)"
    using disjI1 [OF assms(1)] assms(2) by (rule example_storage_planning_idle_feasible)
  have idle: "eval (example_idle e) (objective p) = 0"
    by (simp add: o(1) example_idle_def)
  have "0 \<le> eval a (objective p)" if fa: "feasible p a" for a
  proof -
    from feasible_holds [OF fa o(3)] feasible_holds [OF fa o(4)] feasible_holds [OF fa o(5)]
    have g: "0 \<le> a (variable_output_vector 0 ''grid_electric_power'')"
      "0 \<le> a (variable_output_vector 1800 ''grid_electric_power'')"
      "0 \<le> a (variable_output_vector 3600 ''grid_electric_power'')"
      by simp_all
    from feasible_in_domain [OF fa m(4)] have s: "0 \<le> a variable_storage_size" by simp
    from energy_cost_nonneg [OF g(1) o(2), of 2] energy_cost_nonneg [OF g(2) o(2), of 3]
      energy_cost_nonneg [OF g(3) o(2), of 4] s
    show ?thesis unfolding o(1) by simp
  qed
  with f idle show ?thesis by (simp add: is_optimal_def)
qed

lemma example_fixed_cost_optimal:
  assumes "OptimizationProblem_init example_store example_building_fixed_cost
       (example_args ''storage_planning'') = (st', Inr p)"
  shows "is_optimal p (example_idle 0)"
proof -
  note o = example_fixed_cost_objective [OF assms(1)]
  have pt: "problem_type (example_args ''storage_planning'') = ''storage_planning''"
    by (simp add: example_args_def)
  note m = storage_planning_model [OF assms(1) pt]
  have f: "feasible p (example_idle 0)"
    using disjI2 [OF assms(1)] by (rule example_storage_planning_idle_feasible) simp
  have idle: "eval (example_idle 0) (objective p) = 0"
    by (simp add: o(1) example_idle_def)
  have "0 \<le> eval a (objective p)" if fa: "feasible p a" for a
  proof -
    from feasible_holds [OF fa o(3)] feasible_holds [OF fa o(4)] feasible_holds [OF fa o(5)]
    have g: "0 \<le> a (variable_output_vector 0 ''grid_electric_power'')"
      "0 \<le> a (variable_output_vector 1800 ''grid_electric_power'')"
      "0 \<le> a (variable_output_vector 3600 ''grid_electric_power'')"
      by simp_all
    from feasible_in_domain [OF fa m(4)] have s: "0 \<le> a variable_storage_size" by simp
    from feasible_in_domain [OF fa m(6)] have x: "0 \<le> a variable_storage_exists" by auto
    from energy_cost_nonneg [OF g(1) o(2), of 2] energy_cost_nonneg [OF g(2) o(2), of 3]
      energy_cost_nonneg [OF g(3) o(2), of 4] s x
    show ?thesis unfolding o(1) by simp
  qed
  with f idle show ?thesis by (simp add: is_optimal_def)
qed

theorem storage_exists_bounds_storage_size_witness:
  "\<exists>st' p.
     OptimizationProblem_init example_store example_building_fixed_cost
       (example_args ''storage_planning'') = (st', Inr p)
     \<and> problem_type (example_args ''storage_planning'') = ''storage_planning''
     \<and> is_optimal p (example_idle 0)
     \<and> feasible p (example_idle 0)
     \<and> example_idle 0 variable_storage_size = 0
     \<and> 0 < storage_planning_fixed_installation_cost example_building_fixed_cost
     \<and> str_in ''sensible'' (building_storage_type example_building_fixed_cost)
     \<and> example_idle 0 variable_storage_exists = 0
     \<and> example_idle 0 variable_storage_size
         \<le> example_idle 0 variable_storage_exists * LARGE_CONSTANT"
proof -
  obtain st' p where
    init: "OptimizationProblem_init example_store example_building_fixed_cost
       (example_args ''storage_planning'') = (st', Inr p)"
    using example_storage_planning_init(2) by blast
  have pt: "problem_type (example_args ''storage_planning'') = ''storage_planning''"
    by (simp add: example_args_def)
  have opt: "is_optimal p (example_idle 0)" using init by (rule example_fixed_cost_optimal)
  then have f: "feasible p (example_idle 0)" by (simp add: is_optimal_def)
  have size: "example_idle 0 variable_storage_size = 0" by (simp add: example_idle_def)
  have cost: "0 < storage_planning_fixed_installation_cost example_building_fixed_cost"
    and type: "str_in ''sensible'' (building_storage_type example_building_fixed_cost)"
    by (simp_all add: example_defs)
  note main = storage_exists_bounds_storage_size [OF init pt]
  from main opt size cost type have "example_idle 0 variable_storage_exists = 0" by blast
  moreover from main f have "example_idle 0 variable_storage_size
         \<le> example_idle 0 variable_storage_exists * LARGE_CONSTANT" by blast
  ultimately show ?thesis using init pt opt f size cost type by blast
qed

text \<open>
  The claim as stated fails: with a fixed installation cost of zero, the assignment of
  the small building that builds no storage (size 0) and has \<open>storage_exists = 1\<close> is
  optimal.
\<close>

theorem storage_exists_with_size_zero_counterexample:
  "\<exists>st' p.
     OptimizationProblem_init example_store example_building
       (example_args ''storage_planning'') = (st', Inr p)
     \<and> storage_planning_fixed_installation_cost example_building = 0
     \<and> is_optimal p (example_idle 1)
     \<and> example_idle 1 variable_storage_size = 0
     \<and> example_idle 1 variable_storage_exists = 1"
proof -
  obtain st' p where
    init: "OptimizationProblem_init example_store example_building
       (example_args ''storage_planning'') = (st', Inr p)"
    using example_storage_planning_init(1) by blast
  have "is_optimal p (example_idle 1)"
    using init by (rule example_storage_planning_optimal) simp
  moreover have "example_idle 1 variable_storage_size = 0"
    and "example_idle 1 variable_storage_exists = 1"
    and "storage_planning_fixed_installation_cost example_building = 0"
    by (simp_all add: example_idle_def example_building_def)
  ultimately show ?thesis using init by blast
qed

section \<open>The whole of \<^verbatim>\<open>solve\<close>\<close>

lemma retrieve_cost_eq:
  "retrieve_cost vals e =
     (case value_of vals e of None \<Rightarrow> Inl ValueError | Some x \<Rightarrow> Inr x)"
  by (cases e) (simp_all add: retrieve_cost_def pyo_value_def)

lemma example_hot_model:
  assumes "OptimizationProblem_init example_store example_building_hot
       (example_args ''operation'') = (st', Inr p)"
  shows "Eq (V (variable_state_vector 0 ''zone_temperature'')) (Lit 24) \<in> set (constraints p)"
    and "Eq (V (variable_state_vector 1800 ''zone_temperature''))
            (state_equation_rhs example_building_hot ''zone_temperature'' 0)
          \<in> set (constraints p)"
    and "output_equation example_building_hot ''zone_temperature'' 1800 \<in> set (constraints p)"
    and "Le (V (variable_output_vector 1800 ''zone_temperature'')) (Lit 26) \<in> set (constraints p)"
    and "(variable_control_vector 0 ''heat_power'', PyoNonNegativeReals) \<in> set (variables p)"
  using assms
  by (auto simp: constructor_defs example_building_hot_def
      example_building_def example_store_def example_args_def Let_def
      define_variables_def declare_vars_def
      output_equation_constraints_def output_bound_constraints_def
      minimum_bound_def maximum_bound_def)

lemma example_hot_thermal_model:
  assumes "OptimizationProblem_init example_store example_building_hot_thermal
       (example_args ''operation'') = (st', Inr p)"
  shows "Eq (V (variable_state_vector 0 ''zone_temperature'')) (Lit 24) \<in> set (constraints p)"
    and "Eq (V (variable_state_vector 1800 ''zone_temperature''))
            (state_equation_rhs example_building_hot_thermal ''zone_temperature'' 0)
          \<in> set (constraints p)"
    and "output_equation example_building_hot_thermal ''zone_temperature'' 1800
          \<in> set (constraints p)"
    and "Le (V (variable_output_vector 1800 ''zone_temperature'')) (Lit 26) \<in> set (constraints p)"
    and "(variable_control_vector 0 ''heat_power'', PyoNonNegativeReals) \<in> set (variables p)"
    and "operation_cost p = Lit 0" and "investment_cost p = Lit 0"
    and "self_building p = example_building_hot_thermal"
    and "self_args p = example_args ''operation''"
  using assms
  by (auto simp: constructor_defs example_building_hot_def example_building_hot_thermal_def
      example_building_def example_store_def example_args_def Let_def
      define_variables_def declare_vars_def define_investment_cost_def
      output_equation_constraints_def output_bound_constraints_def
      minimum_bound_def maximum_bound_def)

lemma example_hot_init:
  "\<exists>st' p. OptimizationProblem_init example_store example_building_hot
     (example_args ''operation'') = (st', Inr p)"
  "\<exists>st' p. OptimizationProblem_init example_store example_building_hot_thermal
     (example_args ''operation'') = (st', Inr p)"
  by (simp_all add: constructor_defs example_building_hot_def example_building_hot_thermal_def
      example_building_def example_store_def example_args_def Let_def)

lemma example_hot_operation_cost:
  assumes "OptimizationProblem_init example_store example_building_hot
       (example_args ''operation'') = (st', Inr p)"
  shows "value_of (\<lambda>v. None) (operation_cost p) = None"
  using assms
  by (auto simp: constructor_defs example_building_hot_def
      example_building_def example_store_def example_args_def Let_def
      py_add_def py_mul_def py_div_def)

lemma too_hot:
  fixes x0 x1 y1 u0 :: real
  assumes "x0 = 24" and "x1 = 1 / 2 * x0 + 1 / 1000 * u0 + 1 / 2 * 30"
    and "y1 = x1" and "y1 \<le> 26" and "0 \<le> u0"
  shows False
  using assms by simp

lemma example_hot_infeasible:
  assumes "OptimizationProblem_init example_store example_building_hot
       (example_args ''operation'') = (st', Inr p)"
  shows "\<not> feasible p a"
proof
  assume f: "feasible p a"
  note m = example_hot_model [OF assms]
  have "a (variable_state_vector 0 ''zone_temperature'') = 24"
    using feasible_holds [OF f m(1)] by simp
  moreover have "a (variable_state_vector 1800 ''zone_temperature'')
      = 1 / 2 * a (variable_state_vector 0 ''zone_temperature'')
        + 1 / 1000 * a (variable_control_vector 0 ''heat_power'') + 1 / 2 * 30"
    using feasible_holds [OF f m(2)]
    by (simp add: eval_state_equation_rhs example_building_hot_def example_building_def)
  moreover have "a (variable_output_vector 1800 ''zone_temperature'')
      = a (variable_state_vector 1800 ''zone_temperature'')"
    using feasible_holds [OF f m(3)]
    by (simp add: output_equation_def example_building_hot_def example_building_def)
  moreover have "a (variable_output_vector 1800 ''zone_temperature'') \<le> 26"
    using feasible_holds [OF f m(4)] by simp
  moreover have "0 \<le> a (variable_control_vector 0 ''heat_power'')"
    using feasible_in_domain [OF f m(5)] by simp
  ultimately show False by (rule too_hot)
qed

lemma example_hot_thermal_infeasible:
  assumes "OptimizationProblem_init example_store example_building_hot_thermal
       (example_args ''operation'') = (st', Inr p)"
  shows "\<not> feasible p a"
proof
  assume f: "feasible p a"
  note m = example_hot_thermal_model [OF assms]
  have "a (variable_state_vector 0 ''zone_temperature'') = 24"
    using feasible_holds [OF f m(1)] by simp
  moreover have "a (variable_state_vector 1800 ''zone_temperature'')
      = 1 / 2 * a (variable_state_vector 0 ''zone_temperature'')
        + 1 / 1000 * a (variable_control_vector 0 ''heat_power'') + 1 / 2 * 30"
    using feasible_holds [OF f m(2)]
    by (simp add: eval_state_equation_rhs example_building_hot_thermal_def
        example_building_hot_def example_building_def)
  moreover have "a (variable_output_vector 1800 ''zone_temperature'')
      = a (variable_state_vector 1800 ''zone_temperature'')"
    using feasible_holds [OF f m(3)]
    by (simp add: output_equation_def example_building_hot_thermal_def
        example_building_hot_def example_building_def)
  moreover have "a (variable_output_vector 1800 ''zone_temperature'') \<le> 26"
    using feasible_holds [OF f m(4)] by simp
  moreover have "0 \<le> a (variable_control_vector 0 ''heat_power'')"
    using feasible_in_domain [OF f m(5)] by simp
  ultimately show False by (rule too_hot)
qed

section \<open>Termination status (C2)\<close>

text \<open>
  C2, as amended. \<^verbatim>\<open>solve\<close> has no branch on the termination status. When the solver
  call raises, that exception leaves \<^verbatim>\<open>solve\<close> and \<^verbatim>\<open>self.result\<close> is not assigned. When
  the call returns, with whatever termination status, \<^verbatim>\<open>solve\<close> stores the result in
  \<^verbatim>\<open>self.result\<close> and always goes on to extract: every cell of the three tables gets what
  the solver left in the corresponding variable (a missing cell for a variable without a
  value), the two costs are evaluated, and the storage size is read. It raises
  \<^verbatim>\<open>ValueError\<close> when a cost expression has a variable without a value, and otherwise
  returns the ordinary tuple; neither carries the termination status, and both are the
  same for every termination status.
\<close>

theorem solve_extracts_whatever_the_termination_status:
  "OptimizationProblem_solve self_solver self =
     (case self_solver self of
        Inl e \<Rightarrow> (self, Inl e)
      | Inr res \<Rightarrow>
          (self\<lparr>self_result := Some res\<rparr>,
           case value_of (var_values res) (operation_cost self) of
             None \<Rightarrow> Inl ValueError
           | Some opex \<Rightarrow>
               (case value_of (var_values res) (investment_cost self) of
                  None \<Rightarrow> Inl ValueError
                | Some capex \<Rightarrow>
                    Inr \<lparr>
                      control_vector =
                        (\<lambda>(t, n). if t \<in> set (timesteps (self_building self))
                                     \<and> n \<in> set (controls (self_building self))
                                   then Some (var_values res (variable_control_vector t n))
                                   else None),
                      state_vector =
                        (\<lambda>(t, n). if t \<in> set (timesteps (self_building self))
                                     \<and> n \<in> set (states (self_building self))
                                   then Some (var_values res (variable_state_vector t n))
                                   else None),
                      output_vector =
                        (\<lambda>(t, n). if t \<in> set (timesteps (self_building self))
                                     \<and> n \<in> set (outputs (self_building self))
                                   then Some (var_values res (variable_output_vector t n))
                                   else None),
                      operation_cost_value = opex,
                      investment_cost_value = capex,
                      storage_size =
                        (if problem_type (self_args self) = ''storage_planning''
                         then var_values res variable_storage_size
                         else if problem_type (self_args self) = ''storage_planning_baseline''
                         then Some 0
                         else None) \<rparr>)))
   \<and> snd (OptimizationProblem_solve (\<lambda>m. Inr (res\<lparr>termination_status := s\<rparr>)) self)
     = snd (OptimizationProblem_solve (\<lambda>m. Inr res) self)"
proof -
  have whole: "OptimizationProblem_solve self_solver self =
     (case self_solver self of
        Inl e \<Rightarrow> (self, Inl e)
      | Inr res \<Rightarrow>
          (self\<lparr>self_result := Some res\<rparr>,
           case value_of (var_values res) (operation_cost self) of
             None \<Rightarrow> Inl ValueError
           | Some opex \<Rightarrow>
               (case value_of (var_values res) (investment_cost self) of
                  None \<Rightarrow> Inl ValueError
                | Some capex \<Rightarrow>
                    Inr \<lparr>
                      control_vector =
                        (\<lambda>(t, n). if t \<in> set (timesteps (self_building self))
                                     \<and> n \<in> set (controls (self_building self))
                                   then Some (var_values res (variable_control_vector t n))
                                   else None),
                      state_vector =
                        (\<lambda>(t, n). if t \<in> set (timesteps (self_building self))
                                     \<and> n \<in> set (states (self_building self))
                                   then Some (var_values res (variable_state_vector t n))
                                   else None),
                      output_vector =
                        (\<lambda>(t, n). if t \<in> set (timesteps (self_building self))
                                     \<and> n \<in> set (outputs (self_building self))
                                   then Some (var_values res (variable_output_vector t n))
                                   else None),
                      operation_cost_value = opex,
                      investment_cost_value = capex,
                      storage_size =
                        (if problem_type (self_args self) = ''storage_planning''
                         then var_values res variable_storage_size
                         else if problem_type (self_args self) = ''storage_planning_baseline''
                         then Some 0
                         else None) \<rparr>)))"
  proof (cases "self_solver self")
    case (Inl e)
    then show ?thesis by (simp add: OptimizationProblem_solve_def)
  next
    case (Inr r)
    then show ?thesis
      by (simp add: OptimizationProblem_solve_def solve_def Let_def retrieve_cost_eq
          retrieve_results_eq retrieve_storage_size_def split: option.splits)
  qed
  have same: "snd (OptimizationProblem_solve (\<lambda>m. Inr (res\<lparr>termination_status := s\<rparr>)) self)
     = snd (OptimizationProblem_solve (\<lambda>m. Inr res) self)"
    by (simp add: OptimizationProblem_solve_def solve_def Let_def)
  from whole same show ?thesis by (rule conjI)
qed

text \<open>
  The claim as stated fails. The model of the small building in the hot climate has no
  feasible assignment. When the solver reports it infeasible and leaves the variables
  without values, \<^verbatim>\<open>solve\<close> raises \<^verbatim>\<open>ValueError\<close> from evaluating the operation cost.
  For the same building without its grid power output the costs are the float
  \<^verbatim>\<open>0.0\<close>, and \<^verbatim>\<open>solve\<close> returns the ordinary tuple: tables of missing cells, both
  costs \<^verbatim>\<open>0.0\<close>. Neither is a failure result that carries the termination status, and
  the tables were extracted.
\<close>

theorem solve_infeasible_counterexample:
  "\<exists>st' p st'' q out.
     OptimizationProblem_init example_store example_building_hot (example_args ''operation'')
       = (st', Inr p)
     \<and> (\<forall>a. \<not> feasible p a)
     \<and> OptimizationProblem_solve reports_infeasible p
         = (p\<lparr>self_result := Some \<lparr>termination_status = infeasible, var_values = (\<lambda>v. None)\<rparr>\<rparr>,
            Inl ValueError)
     \<and> OptimizationProblem_init example_store example_building_hot_thermal
         (example_args ''operation'') = (st'', Inr q)
     \<and> (\<forall>a. \<not> feasible q a)
     \<and> snd (OptimizationProblem_solve reports_infeasible q) = Inr out
     \<and> control_vector out (0, ''heat_power'') = Some None
     \<and> state_vector out (1800, ''zone_temperature'') = Some None
     \<and> output_vector out (1800, ''zone_temperature'') = Some None
     \<and> operation_cost_value out = 0
     \<and> investment_cost_value out = 0
     \<and> storage_size out = None"
proof -
  obtain st' p where
    p: "OptimizationProblem_init example_store example_building_hot (example_args ''operation'')
       = (st', Inr p)"
    using example_hot_init(1) by blast
  obtain st'' q where
    q: "OptimizationProblem_init example_store example_building_hot_thermal
         (example_args ''operation'') = (st'', Inr q)"
    using example_hot_init(2) by blast
  have np: "\<forall>a. \<not> feasible p a" using example_hot_infeasible [OF p] by blast
  have nq: "\<forall>a. \<not> feasible q a" using example_hot_thermal_infeasible [OF q] by blast
  have raises: "OptimizationProblem_solve reports_infeasible p
         = (p\<lparr>self_result := Some \<lparr>termination_status = infeasible, var_values = (\<lambda>v. None)\<rparr>\<rparr>,
            Inl ValueError)"
    by (simp add: OptimizationProblem_solve_def reports_infeasible_def solve_def Let_def
        retrieve_cost_eq example_hot_operation_cost [OF p])
  note m = example_hot_thermal_model [OF q]
  define out where "out = \<lparr>
      control_vector = fst (retrieve_results (self_building q) (\<lambda>v. None)),
      state_vector = fst (snd (retrieve_results (self_building q) (\<lambda>v. None))),
      output_vector = snd (snd (retrieve_results (self_building q) (\<lambda>v. None))),
      operation_cost_value = 0,
      investment_cost_value = 0,
      storage_size = retrieve_storage_size (problem_type (self_args q)) (\<lambda>v. None) \<rparr>"
  have returns: "snd (OptimizationProblem_solve reports_infeasible q) = Inr out"
    by (simp add: OptimizationProblem_solve_def reports_infeasible_def solve_def Let_def
        retrieve_cost_literal m(6,7) out_def)
  have cells: "control_vector out (0, ''heat_power'') = Some None"
    "state_vector out (1800, ''zone_temperature'') = Some None"
    "output_vector out (1800, ''zone_temperature'') = Some None"
    "operation_cost_value out = 0" "investment_cost_value out = 0" "storage_size out = None"
    by (simp_all add: out_def retrieve_results_eq m(8,9) retrieve_storage_size_def
        example_building_hot_thermal_def example_building_hot_def example_building_def
        example_args_def)
  from p np raises q nq returns cells show ?thesis by blast
qed

end
